theory Spec2Isabelle
  imports Main "HOL-Library.Word"
begin

section \<open>The init command of go-filecoin (cmd/go-filecoin/init.go)\<close>

text \<open>
  The embedding follows \<^verbatim>\<open>init.go\<close> function by function. Everything the file calls but
  does not define (the address parser, the URL parser, the file system, the HTTP client, the
  CAR loader, the block decoder, the key parsers, the repository, the drand client and the
  node initialiser) is a field of the record \<open>Env\<close>: the functions below take an
  environment and are proved correct for every environment.

  Go's \<^verbatim>\<open>error\<close> values carry no kind, only a message. The datatype \<open>error\<close> tags
  each place where \<^verbatim>\<open>init.go\<close> returns an error with the kind the design document
  gives to it; a run-time panic (a failed type assertion, an index or a slice expression out of
  range, a nil dereference) is the constructor \<open>Panic\<close>.
\<close>

subsection \<open>Errors\<close>

datatype error =
    InvalidOption string
  | InvalidSource string
  | UnsupportedScheme string
  | SourceUnavailable string
  | MalformedArchive string
  | MissingRootBlock
  | DecodeFailure string
  | KeyImportFailure string
  | External string
  | Panic string

subsection \<open>Options\<close>

text \<open>
  \<^verbatim>\<open>cmdkit.OptMap\<close> is \<^verbatim>\<open>map[string]interface{}\<close>: a value is dynamically typed.
  The command declares nine string options and one \<^verbatim>\<open>uint\<close> option (64 bits).
\<close>

datatype optval = StringVal string | UintVal "64 word" | BoolVal bool

type_synonym OptMap = "string \<rightharpoonup> optval"

text \<open>\<^verbatim>\<open>v, ok := options[key].(string)\<close>: \<open>Some v\<close> when \<open>ok\<close>.\<close>

definition assertString :: "optval option \<Rightarrow> string option" where
  "assertString v = (case v of Some (StringVal s) \<Rightarrow> Some s | _ \<Rightarrow> None)"

text \<open>
  Modelled from the spec: the option names are constants of the package declared outside
  \<^verbatim>\<open>init.go\<close>; their values are the names of the option table of the design document
  (\<open>repodir\<close>, which the table does not list, is the name the command line uses).
\<close>

definition OptionRepoDir :: string where "OptionRepoDir = ''repodir''"
definition GenesisFile :: string where "GenesisFile = ''genesis-file''"
definition PeerKeyFile :: string where "PeerKeyFile = ''peer-keyfile''"
definition WalletKeyFile :: string where "WalletKeyFile = ''wallet-keyfile''"
definition WithMiner :: string where "WithMiner = ''with-miner''"
definition OptionSectorDir :: string where "OptionSectorDir = ''sector-dir''"
definition MinerActorAddress :: string where "MinerActorAddress = ''miner-actor-address''"
definition AutoSealIntervalSeconds :: string where
  "AutoSealIntervalSeconds = ''auto-seal-interval-seconds''"
definition Network :: string where "Network = ''network''"
definition OptionPresealedSectorDir :: string where
  "OptionPresealedSectorDir = ''presealed-sector-dir''"
definition OptionDrandConfigAddr :: string where
  "OptionDrandConfigAddr = ''drand-config-addr''"

definition recognizedOptions :: "string list" where
  "recognizedOptions = [OptionSectorDir, WithMiner, AutoSealIntervalSeconds,
     MinerActorAddress, OptionPresealedSectorDir, Network]"

subsection \<open>Configuration\<close>

text \<open>
  \<^verbatim>\<open>address.Address\<close> is a struct holding one string; \<^verbatim>\<open>address.Undef\<close> is its
  zero value.
\<close>

datatype Address = Address string

definition Undef :: Address where "Undef = Address []"

record SectorBaseConfig =
  RootDirPath :: string
  PreSealedSectorsDirPath :: string

record MiningConfig =
  MinerAddress :: Address
  AutoSealIntervalSeconds_cfg :: "64 word"

text \<open>
  The bootstrap list, the drand configuration and the network parameters are only ever copied
  as a whole from a preset, so their types are parameters.
\<close>

record ('b, 'd, 'n) Config =
  SectorBase :: SectorBaseConfig
  Mining :: MiningConfig
  Bootstrap :: 'b
  Drand :: 'd
  NetworkParams :: 'n

record ('b, 'd, 'n) NetworkConf =
  Bootstrap_net :: 'b
  Drand_net :: 'd
  Network_net :: 'n

subsection \<open>Archives, blocks and the block store\<close>

type_synonym bytes = string

text \<open>\<^verbatim>\<open>cid.Cid\<close> is a struct holding one string.\<close>

type_synonym cid = string

text \<open>
  Modelled from the spec: \<^verbatim>\<open>block.TipSetKey\<close>, \<^verbatim>\<open>block.UndefTipSet.Key()\<close>,
  \<^verbatim>\<open>Equals\<close> and \<^verbatim>\<open>ToSlice\<close> are declared in the package \<^verbatim>\<open>block\<close>, outside
  \<^verbatim>\<open>init.go\<close>. A tipset key is the undefined sentinel (no parents) or a non-empty ordered
  set of CIDs: a list of CIDs, the sentinel being the empty one.
\<close>

datatype TipSetKey = TipSetKey "cid list"

definition UndefTipSetKey :: TipSetKey where
  "UndefTipSetKey = TipSetKey []"

definition Equals :: "TipSetKey \<Rightarrow> TipSetKey \<Rightarrow> bool" where
  "Equals a b = (a = b)"

fun ToSlice :: "TipSetKey \<Rightarrow> cid list" where
  "ToSlice (TipSetKey cs) = cs"

text \<open>Of a block, \<^verbatim>\<open>init.go\<close> reads the parents only; \<open>Body\<close> stands for the rest.\<close>

record Block =
  Parents :: TipSetKey
  Body :: bytes

record CarHeader =
  Roots :: "cid list"

text \<open>
  The block store maps a CID to the raw bytes of a block; \<^verbatim>\<open>bs.Get\<close> returns the bytes
  stored under a CID, or the store's not-found error. The field \<open>gets\<close> records, in order,
  the CID of every \<^verbatim>\<open>bs.Get\<close>, so that the number of fetches is part of the result.
\<close>

record BlockStore =
  blocks :: "cid \<rightharpoonup> bytes"
  gets :: "cid list"

definition bs_Get :: "BlockStore \<Rightarrow> cid \<Rightarrow> (string + bytes) \<times> BlockStore" where
  "bs_Get bs c =
     (let bs' = bs\<lparr>gets := gets bs @ [c]\<rparr>
      in case blocks bs c of
           None \<Rightarrow> (Inl ''blockstore: block not found'', bs')
         | Some raw \<Rightarrow> (Inr raw, bs'))"

record URL =
  Scheme :: string

subsection \<open>Initialisation directives\<close>

type_synonym KeyInfo = bytes

datatype PrivKey = PrivKey bytes

datatype InitOpt = PeerKeyOpt PrivKey | DefaultKeyOpt KeyInfo | ImportKeyOpt KeyInfo

record WalletSerializeResult =
  KeyInfo :: "KeyInfo list"

datatype InitFunc = MakeGenesisFunc | ConstGenesis Block

subsection \<open>The repository\<close>

text \<open>
  \<open>cfg\<close> is the configuration object that \<^verbatim>\<open>rep.Config()\<close> points to, \<open>stored\<close> the
  configuration file of the repository, \<open>datastore\<close> the blocks it holds, and \<open>replaced\<close>
  the log of the calls of \<^verbatim>\<open>rep.ReplaceConfig\<close>.
\<close>

record ('b, 'd, 'n) Repo =
  cfg :: "('b, 'd, 'n) Config"
  stored :: "('b, 'd, 'n) Config"
  datastore :: "cid \<rightharpoonup> bytes"
  replaced :: "('b, 'd, 'n) Config list"

subsection \<open>The collaborators\<close>

record ('b, 'd, 'n) Env =
  NewFromString :: "string \<Rightarrow> Address \<times> string option"
  InteropNet :: "('b, 'd, 'n) NetworkConf"
  TestNet :: "('b, 'd, 'n) NetworkConf"
  url_Parse :: "string \<Rightarrow> string + URL"
  http_Get :: "string \<Rightarrow> string + bytes"
  os_Open :: "string \<Rightarrow> string + bytes"
  LoadCar :: "BlockStore \<Rightarrow> bytes \<Rightarrow> (error + CarHeader) \<times> BlockStore"
  DecodeBlock :: "bytes \<Rightarrow> string + Block"
  ReadFile :: "string \<Rightarrow> string + bytes"
  UnmarshalPrivateKey :: "bytes \<Rightarrow> string + PrivKey"
  json_Decode :: "bytes \<Rightarrow> string + WalletSerializeResult option"
  GetRepoPath :: "string \<Rightarrow> string + string"
  Emit :: "string \<Rightarrow> string option"
  NewDefaultConfig :: "('b, 'd, 'n) Config"
  InitFSRepo :: "string \<Rightarrow> ('b, 'd, 'n) Config \<Rightarrow> string option"
  OpenFSRepo :: "string \<Rightarrow> string + ('b, 'd, 'n) Repo"
  DefaultDrandIfaceFromConfig :: "('b, 'd, 'n) Config \<Rightarrow> string option"
  drand_Configure ::
    "(string \<Rightarrow> string \<Rightarrow> ('b, 'd, 'n) Config \<Rightarrow> string option \<times> ('b, 'd, 'n) Config)
       \<Rightarrow> string list \<Rightarrow> bool \<Rightarrow> bool
       \<Rightarrow> ('b, 'd, 'n) Config \<Rightarrow> string option \<times> ('b, 'd, 'n) Config"
  Config_Set :: "string \<Rightarrow> string \<Rightarrow> ('b, 'd, 'n) Config
       \<Rightarrow> string option \<times> ('b, 'd, 'n) Config"
  writeConfigFile :: "('b, 'd, 'n) Config \<Rightarrow> ('b, 'd, 'n) Config
       \<Rightarrow> string option \<times> ('b, 'd, 'n) Config"
  node_Init :: "('b, 'd, 'n) Repo \<Rightarrow> InitFunc \<Rightarrow> InitOpt list
       \<Rightarrow> string option \<times> ('b, 'd, 'n) Repo"

subsection \<open>setConfigFromOptions\<close>

text \<open>
  The Go function mutates \<^verbatim>\<open>*cfg\<close> in place and returns an error or nil; the model returns
  the error, if any, and the configuration as the call leaves it. The assignment
  \<^verbatim>\<open>cfg.Mining.MinerAddress, err = address.NewFromString(m)\<close> stores the address before
  \<^verbatim>\<open>err\<close> is tested. \<^verbatim>\<open>autoSealIntervalSeconds.(uint)\<close> has no \<^verbatim>\<open>ok\<close>: it panics on a
  value that is not a \<^verbatim>\<open>uint\<close>.
\<close>

definition setMinerAddress ::
  "Address \<Rightarrow> ('b, 'd, 'n) Config \<Rightarrow> ('b, 'd, 'n) Config" where
  "setMinerAddress a c = c\<lparr>Mining := (Mining c)\<lparr>MinerAddress := a\<rparr>\<rparr>"

definition setNetwork ::
  "('b, 'd, 'n) NetworkConf \<Rightarrow> ('b, 'd, 'n) Config \<Rightarrow> ('b, 'd, 'n) Config" where
  "setNetwork net c =
     c\<lparr>Bootstrap := Bootstrap_net net, Drand := Drand_net net,
       NetworkParams := Network_net net\<rparr>"

definition setConfigFromOptions ::
  "('b, 'd, 'n) Env \<Rightarrow> ('b, 'd, 'n) Config \<Rightarrow> OptMap
     \<Rightarrow> error option \<times> ('b, 'd, 'n) Config" where
  "setConfigFromOptions env cfg0 options =
    (let cfg1 = (case assertString (options OptionSectorDir) of
                   Some dir \<Rightarrow> cfg0\<lparr>SectorBase := (SectorBase cfg0)\<lparr>RootDirPath := dir\<rparr>\<rparr>
                 | None \<Rightarrow> cfg0);
         (cfg2, err2) = (case assertString (options WithMiner) of
                   Some m \<Rightarrow> (let (a, err) = NewFromString env m
                              in (setMinerAddress a cfg1, err))
                 | None \<Rightarrow> (cfg1, None))
     in case err2 of
       Some e \<Rightarrow> (Some (InvalidOption e), cfg2)
     | None \<Rightarrow>
    (let (cfg3, panic3) = (case options AutoSealIntervalSeconds of
                   None \<Rightarrow> (cfg2, False)
                 | Some (UintVal n) \<Rightarrow>
                     (cfg2\<lparr>Mining := (Mining cfg2)\<lparr>AutoSealIntervalSeconds_cfg := n\<rparr>\<rparr>, False)
                 | Some _ \<Rightarrow> (cfg2, True))
     in if panic3
       then (Some (Panic ''interface conversion: interface {} is not uint''), cfg3)
       else
    (let (cfg4, err4) = (case assertString (options MinerActorAddress) of
                   Some ma \<Rightarrow> (let (a, err) = NewFromString env ma
                               in (setMinerAddress a cfg3, err))
                 | None \<Rightarrow> (cfg3, None))
     in case err4 of
       Some e \<Rightarrow> (Some (InvalidOption e), cfg4)
     | None \<Rightarrow>
    (let (cfg5, err5) = (case assertString (options OptionPresealedSectorDir) of
                   Some dir \<Rightarrow>
                     (if MinerAddress (Mining cfg4) = Undef
                      then (cfg4, Some (''if --'' @ OptionPresealedSectorDir
                              @ '' is provided, --'' @ MinerActorAddress @ '' or --''
                              @ WithMiner @ '' must also be provided''))
                      else (cfg4\<lparr>SectorBase :=
                              (SectorBase cfg4)\<lparr>PreSealedSectorsDirPath := dir\<rparr>\<rparr>, None))
                 | None \<Rightarrow> (cfg4, None))
     in case err5 of
       Some e \<Rightarrow> (Some (InvalidOption e), cfg5)
     | None \<Rightarrow>
    (let netName = (case assertString (options Network) of Some s \<Rightarrow> s | None \<Rightarrow> [])
     in if netName = ''interop'' then (None, setNetwork (InteropNet env) cfg5)
        else if netName = ''testnet'' then (None, setNetwork (TestNet env) cfg5)
        else if netName \<noteq> []
          then (Some (InvalidOption (''unknown network name '' @ netName)), cfg5)
        else (None, cfg5))))))"

subsection \<open>setDrandConfig\<close>

text \<open>
  \<^verbatim>\<open>setWrapper.ConfigSet\<close> forwards to \<^verbatim>\<open>cfg.Set\<close>: the drand client can change the
  configuration object of the repository, and nothing else of it.
\<close>

definition ConfigSet ::
  "('b, 'd, 'n) Env \<Rightarrow> string \<Rightarrow> string \<Rightarrow> ('b, 'd, 'n) Config
     \<Rightarrow> string option \<times> ('b, 'd, 'n) Config" where
  "ConfigSet env dottedKey jsonString c = Config_Set env dottedKey jsonString c"

definition setDrandConfig ::
  "('b, 'd, 'n) Env \<Rightarrow> ('b, 'd, 'n) Repo \<Rightarrow> OptMap
     \<Rightarrow> error option \<times> ('b, 'd, 'n) Repo" where
  "setDrandConfig env rep options =
     (case assertString (options OptionDrandConfigAddr) of
        None \<Rightarrow> (None, rep)
      | Some drandAddrStr \<Rightarrow>
          (case DefaultDrandIfaceFromConfig env (cfg rep) of
             Some e \<Rightarrow> (Some (External e), rep)
           | None \<Rightarrow>
               (let (err, c) = drand_Configure env (ConfigSet env) [drandAddrStr] True False
                                 (cfg rep)
                in (map_option External err, rep\<lparr>cfg := c\<rparr>))))"

subsection \<open>openGenesisSource\<close>

text \<open>
  The second component of the result lists the streams the call tried to open. When
  \<^verbatim>\<open>url.Parse\<close> fails, \<^verbatim>\<open>sourceURL\<close> is nil and the message ends in \<^verbatim>\<open><nil>\<close>.
\<close>

datatype io_event = HttpGet string | FileOpen string

definition openGenesisSource ::
  "('b, 'd, 'n) Env \<Rightarrow> string \<Rightarrow> (error + bytes) \<times> io_event list" where
  "openGenesisSource env sourceName =
     (case url_Parse env sourceName of
        Inl e \<Rightarrow> (Inl (InvalidSource ''invalid filepath or URL for genesis file: <nil>''), [])
      | Inr sourceURL \<Rightarrow>
          if Scheme sourceURL = ''http'' \<or> Scheme sourceURL = ''https'' then
            (case http_Get env sourceName of
               Inl e \<Rightarrow> (Inl (SourceUnavailable e), [HttpGet sourceName])
             | Inr body \<Rightarrow> (Inr body, [HttpGet sourceName]))
          else if Scheme sourceURL \<noteq> [] then
            (Inl (UnsupportedScheme
                    (''unsupported protocol for genesis file: '' @ Scheme sourceURL)), [])
          else
            (case os_Open env sourceName of
               Inl e \<Rightarrow> (Inl (SourceUnavailable e), [FileOpen sourceName])
             | Inr file \<Rightarrow> (Inr file, [FileOpen sourceName])))"

subsection \<open>extractGenesisBlock\<close>

text \<open>
  The loop \<^verbatim>\<open>for !cur.Parents.Equals(block.UndefTipSet.Key())\<close> has no bound: on a store
  whose parent links form a cycle it runs forever, and the model has the value \<open>None\<close>
  there. \<^verbatim>\<open>cur.Parents.ToSlice()[0]\<close> panics on an empty slice.
\<close>

partial_function (option) walkToGenesis ::
  "('b, 'd, 'n) Env \<Rightarrow> BlockStore \<Rightarrow> Block \<Rightarrow> ((error + Block) \<times> BlockStore) option" where
  "walkToGenesis env bs cur =
     (if \<not> Equals (Parents cur) UndefTipSetKey then
        (case ToSlice (Parents cur) of
           [] \<Rightarrow> Some (Inl (Panic ''index out of range [0] with length 0''), bs)
         | c # _ \<Rightarrow>
             (case bs_Get bs c of
                (Inl e, bs') \<Rightarrow> Some (Inl (SourceUnavailable e), bs')
              | (Inr raw, bs') \<Rightarrow>
                  (case DecodeBlock env raw of
                     Inl e \<Rightarrow> Some (Inl (DecodeFailure e), bs')
                   | Inr b \<Rightarrow> walkToGenesis env bs' b)))
      else Some (Inr cur, bs))"

declare walkToGenesis.simps [code]

definition NewBlockstore :: "(cid \<rightharpoonup> bytes) \<Rightarrow> BlockStore" where
  "NewBlockstore ds = \<lparr>blocks = ds, gets = []\<rparr>"

definition extractGenesisBlock ::
  "('b, 'd, 'n) Env \<Rightarrow> bytes \<Rightarrow> ('b, 'd, 'n) Repo
     \<Rightarrow> ((error + Block) \<times> BlockStore) option" where
  "extractGenesisBlock env source rep =
     (let bs = NewBlockstore (datastore rep)
      in case LoadCar env bs source of
           (Inl e, bs1) \<Rightarrow> Some (Inl e, bs1)
         | (Inr ch, bs1) \<Rightarrow>
             (case Roots ch of
                [] \<Rightarrow> Some (Inl (Panic ''index out of range [0] with length 0''), bs1)
              | r # _ \<Rightarrow>
                  (case bs_Get bs1 r of
                     (Inl e, bs2) \<Rightarrow> Some (Inl (SourceUnavailable e), bs2)
                   | (Inr raw, bs2) \<Rightarrow>
                       (case DecodeBlock env raw of
                          Inl e \<Rightarrow> Some (Inl (DecodeFailure e), bs2)
                        | Inr cur \<Rightarrow>
                            if \<not> Equals (Parents cur) UndefTipSetKey
                            then walkToGenesis env bs2 cur
                            else Some (Inr cur, bs2)))))"

text \<open>
  Modelled from the spec: \<^verbatim>\<open>car.LoadCar\<close> is not part of \<^verbatim>\<open>init.go\<close>. The loader
  decodes the archive, fails with \<open>MalformedArchive\<close> on malformed bytes (the blocks decoded
  before the failure stay in the store) and with \<open>MissingRootBlock\<close> on an empty root list,
  and otherwise writes each block into the store under its CID and returns the declared
  roots. The stream is given by what it decodes to.
\<close>

datatype CarStream =
    Malformed "(cid \<times> bytes) list"
  | WellFormed "cid list" "(cid \<times> bytes) list"

definition putMany :: "BlockStore \<Rightarrow> (cid \<times> bytes) list \<Rightarrow> BlockStore" where
  "putMany bs kvs = bs\<lparr>blocks := foldl (\<lambda>m (c, raw). m(c \<mapsto> raw)) (blocks bs) kvs\<rparr>"

definition car_LoadCar ::
  "(bytes \<Rightarrow> CarStream) \<Rightarrow> BlockStore \<Rightarrow> bytes \<Rightarrow> (error + CarHeader) \<times> BlockStore" where
  "car_LoadCar decodeCar bs source =
     (case decodeCar source of
        Malformed kvs \<Rightarrow> (Inl (MalformedArchive ''malformed archive''), putMany bs kvs)
      | WellFormed rs kvs \<Rightarrow>
          if rs = [] then (Inl MissingRootBlock, bs)
          else (Inr \<lparr>Roots = rs\<rparr>, putMany bs kvs))"

subsection \<open>loadGenesis\<close>

definition loadGenesis ::
  "('b, 'd, 'n) Env \<Rightarrow> ('b, 'd, 'n) Repo \<Rightarrow> string
     \<Rightarrow> ((error + InitFunc) \<times> ('b, 'd, 'n) Repo) option" where
  "loadGenesis env rep sourceName =
     (if sourceName = [] then Some (Inr MakeGenesisFunc, rep)
      else case fst (openGenesisSource env sourceName) of
             Inl e \<Rightarrow> Some (Inl e, rep)
           | Inr source \<Rightarrow>
               (case extractGenesisBlock env source rep of
                  None \<Rightarrow> None
                | Some (Inl e, bs) \<Rightarrow> Some (Inl e, rep\<lparr>datastore := blocks bs\<rparr>)
                | Some (Inr genesisBlk, bs) \<Rightarrow>
                    Some (Inr (ConstGenesis genesisBlk), rep\<lparr>datastore := blocks bs\<rparr>)))"

subsection \<open>getNodeInitOpts\<close>

text \<open>
  \<^verbatim>\<open>wir\<close> is a pointer that the JSON decoder leaves nil on the input \<^verbatim>\<open>null\<close>
  (\<open>Inr None\<close>); \<^verbatim>\<open>wir.KeyInfo\<close> then panics. The slice expression
  \<^verbatim>\<open>wir.KeyInfo[1:]\<close> panics when the list is shorter than 1.
\<close>

definition getNodeInitOpts ::
  "('b, 'd, 'n) Env \<Rightarrow> string \<Rightarrow> string \<Rightarrow> error + InitOpt list" where
  "getNodeInitOpts env peerKeyFile walletKeyFile =
     (case (if peerKeyFile \<noteq> [] then
              (case ReadFile env peerKeyFile of
                 Inl e \<Rightarrow> Inl (KeyImportFailure e)
               | Inr data \<Rightarrow>
                   (case UnmarshalPrivateKey env data of
                      Inl e \<Rightarrow> Inl (KeyImportFailure e)
                    | Inr peerKey \<Rightarrow> Inr ([] @ [PeerKeyOpt peerKey])))
            else Inr []) of
        Inl e \<Rightarrow> Inl e
      | Inr initOpts \<Rightarrow>
          if walletKeyFile \<noteq> [] then
            (case os_Open env walletKeyFile of
               Inl e \<Rightarrow> Inl (KeyImportFailure e)
             | Inr f \<Rightarrow>
                 (case json_Decode env f of
                    Inl e \<Rightarrow> Inl (KeyImportFailure e)
                  | Inr None \<Rightarrow>
                      Inl (Panic ''invalid memory address or nil pointer dereference'')
                  | Inr (Some wir) \<Rightarrow>
                      (let initOpts1 =
                             (if length (KeyInfo wir) > 0
                              then initOpts @ [DefaultKeyOpt (KeyInfo wir ! 0)]
                              else initOpts)
                       in if 1 > length (KeyInfo wir)
                          then Inl (Panic ''slice bounds out of range [1:0]'')
                          else Inr (foldl (\<lambda>acc k. acc @ [ImportKeyOpt k]) initOpts1
                                      (drop 1 (KeyInfo wir))))))
          else Inr initOpts)"

subsection \<open>The command\<close>

text \<open>
  Modelled from the spec: \<^verbatim>\<open>rep.ReplaceConfig\<close> belongs to the package \<^verbatim>\<open>repo\<close>, outside
  \<^verbatim>\<open>init.go\<close>. It persists the configuration it is given: the call is logged, the
  configuration file is written (the environment decides whether the write fails and what
  the file holds then) and the repository's configuration object becomes the new one.
\<close>

definition ReplaceConfig ::
  "('b, 'd, 'n) Env \<Rightarrow> ('b, 'd, 'n) Repo \<Rightarrow> ('b, 'd, 'n) Config
     \<Rightarrow> error option \<times> ('b, 'd, 'n) Repo" where
  "ReplaceConfig env rep c =
     (let rep1 = rep\<lparr>replaced := replaced rep @ [c], cfg := c\<rparr>
      in case writeConfigFile env (stored rep) c of
           (Some e, file) \<Rightarrow> (Some (External e), rep1\<lparr>stored := file\<rparr>)
         | (None, _) \<Rightarrow> (None, rep1\<lparr>stored := c\<rparr>))"

text \<open>
  \<^verbatim>\<open>initCmd.Run\<close>. The result is the error the command returns, if any, and the repository
  as the command leaves it, once it has been opened. \<^verbatim>\<open>cfg := rep.Config()\<close> is a pointer
  to the configuration object of the repository: \<^verbatim>\<open>setConfigFromOptions\<close> and
  \<^verbatim>\<open>setDrandConfig\<close> both change that object, and \<^verbatim>\<open>rep.ReplaceConfig(cfg)\<close> is
  handed the same object.
\<close>

definition Run ::
  "('b, 'd, 'n) Env \<Rightarrow> OptMap \<Rightarrow> (error option \<times> ('b, 'd, 'n) Repo option) option" where
  "Run env options =
     (let repoDir0 = (case assertString (options OptionRepoDir) of Some s \<Rightarrow> s | None \<Rightarrow> [])
      in case GetRepoPath env repoDir0 of
        Inl e \<Rightarrow> Some (Some (External e), None)
      | Inr repoDir \<Rightarrow>
     (case Emit env repoDir of
        Some e \<Rightarrow> Some (Some (External e), None)
      | None \<Rightarrow>
     (case InitFSRepo env repoDir (NewDefaultConfig env) of
        Some e \<Rightarrow> Some (Some (External e), None)
      | None \<Rightarrow>
     (case OpenFSRepo env repoDir of
        Inl e \<Rightarrow> Some (Some (External e), None)
      | Inr rep \<Rightarrow>
     (let genesisFileSource =
            (case assertString (options GenesisFile) of Some s \<Rightarrow> s | None \<Rightarrow> [])
      in case loadGenesis env rep genesisFileSource of
        None \<Rightarrow> None
      | Some (Inl e, rep1) \<Rightarrow> Some (Some e, Some rep1)
      | Some (Inr gif, rep1) \<Rightarrow>
     (let peerKeyFile =
            (case assertString (options PeerKeyFile) of Some s \<Rightarrow> s | None \<Rightarrow> []);
          walletKeyFile =
            (case assertString (options WalletKeyFile) of Some s \<Rightarrow> s | None \<Rightarrow> [])
      in case getNodeInitOpts env peerKeyFile walletKeyFile of
        Inl e \<Rightarrow> Some (Some e, Some rep1)
      | Inr initopts \<Rightarrow>
     (let (err2, c) = setConfigFromOptions env (cfg rep1) options;
          rep2 = rep1\<lparr>cfg := c\<rparr>
      in case err2 of
        Some e \<Rightarrow> Some (Some e, Some rep2)
      | None \<Rightarrow>
     (let (err3, rep3) = setDrandConfig env rep2 options
      in case err3 of
        Some e \<Rightarrow> Some (Some e, Some rep3)
      | None \<Rightarrow>
     (let (err4, rep4) = ReplaceConfig env rep3 (cfg rep3)
      in case err4 of
        Some e \<Rightarrow> Some (Some e, Some rep4)
      | None \<Rightarrow>
     (let (err5, rep5) = node_Init env rep4 gif initopts
      in Some (map_option External err5, Some rep5)))))))))))"

subsection \<open>Well-typed option maps and linear chains\<close>

text \<open>
  The command declares \<^verbatim>\<open>auto-seal-interval-seconds\<close> with \<^verbatim>\<open>cmdkit.UintOption\<close>: in
  the option map the command framework builds, the value of that key is a \<^verbatim>\<open>uint\<close>.
\<close>

definition typedOptions :: "OptMap \<Rightarrow> bool" where
  "typedOptions options =
     (case options AutoSealIntervalSeconds of
        None \<Rightarrow> True
      | Some (UintVal n) \<Rightarrow> True
      | Some _ \<Rightarrow> False)"

text \<open>The CID \<open>c\<close> resolves to the block \<open>b\<close>: the store holds bytes for it that decode to \<open>b\<close>.\<close>

definition resolves :: "('b, 'd, 'n) Env \<Rightarrow> (cid \<rightharpoonup> bytes) \<Rightarrow> cid \<Rightarrow> Block \<Rightarrow> bool" where
  "resolves env m c b =
     (case m c of None \<Rightarrow> False | Some raw \<Rightarrow> DecodeBlock env raw = Inr b)"

text \<open>
  A linear chain, listed from the root back to the genesis block: every block is in the
  store under its CID, the first CID of the parents of each block but the last is the CID of
  the next one, and the last block has the undefined parents.
\<close>

fun linearChain ::
  "('b, 'd, 'n) Env \<Rightarrow> (cid \<rightharpoonup> bytes) \<Rightarrow> (cid \<times> Block) list \<Rightarrow> bool" where
  "linearChain env m [] = False"
| "linearChain env m [(c, b)] = (resolves env m c b \<and> Parents b = UndefTipSetKey)"
| "linearChain env m ((c, b) # (c', b') # rest) =
     (resolves env m c b
      \<and> (case ToSlice (Parents b) of [] \<Rightarrow> False | p # _ \<Rightarrow> p = c')
      \<and> linearChain env m ((c', b') # rest))"

text \<open>
  The parent hops of an extraction that leaves the store \<open>bs\<close>, the archive having been
  loaded into \<open>bs0\<close>: the fetches made since, less the one of the root.
\<close>

definition hopsSince :: "BlockStore \<Rightarrow> BlockStore \<Rightarrow> nat" where
  "hopsSince bs0 bs = length (gets bs) - length (gets bs0) - 1"

subsection \<open>A sample environment\<close>

text \<open>
  One environment, used to run the functions on concrete inputs. Its address parser accepts
  the empty string as the undefined address and rejects a string shorter than three
  characters, as \<^verbatim>\<open>go-address\<close> does; its URL parser rejects a \<^verbatim>\<open>%\<close> that two hexadecimal
  digits do not follow, as \<^verbatim>\<open>net/url\<close> does, and takes for scheme the letters before a
  first colon.
\<close>

definition isHex :: "char \<Rightarrow> bool" where
  "isHex c = (c \<in> set ''0123456789abcdefABCDEF'')"

fun badEscape :: "string \<Rightarrow> bool" where
  "badEscape (c # a # b # rest) =
     (if c = CHR ''%'' then (if isHex a \<and> isHex b then badEscape rest else True)
      else badEscape (a # b # rest))"
| "badEscape (c # rest) = (c = CHR ''%'' \<or> badEscape rest)"
| "badEscape [] = False"

definition isLetter :: "char \<Rightarrow> bool" where
  "isLetter c = (c \<in> set ''abcdefghijklmnopqrstuvwxyzABCDEFGHIJKLMNOPQRSTUVWXYZ'')"

definition getScheme :: "string \<Rightarrow> string" where
  "getScheme s =
     (let p = takeWhile isLetter s
      in if p \<noteq> [] \<and> take 1 (drop (length p) s) = '':'' then p else [])"

definition sample_url_Parse :: "string \<Rightarrow> string + URL" where
  "sample_url_Parse s =
     (if badEscape s then Inl ''invalid URL escape'' else Inr \<lparr>Scheme = getScheme s\<rparr>)"

definition sample_NewFromString :: "string \<Rightarrow> Address \<times> string option" where
  "sample_NewFromString s =
     (if s = [] then (Undef, None)
      else if length s < 3 then (Undef, Some ''invalid address length'')
      else (Address s, None))"

definition sampleFiles :: "string list" where
  "sampleFiles = [''genesis.car'', ''chain.car'', ''empty.car'', ''100%.car'',
     ''wallet.json'', ''empty-wallet.json'']"

definition sample_os_Open :: "string \<Rightarrow> string + bytes" where
  "sample_os_Open p =
     (if p \<in> set sampleFiles then Inr (''contents of '' @ p)
      else Inl (''open '' @ p @ '': no such file or directory''))"

definition sample_decodeCar :: "bytes \<Rightarrow> CarStream" where
  "sample_decodeCar src =
     (if src = ''contents of genesis.car'' then WellFormed [''c0''] [(''c0'', ''b0'')]
      else if src = ''contents of chain.car''
        then WellFormed [''c2''] [(''c2'', ''b2''), (''c1'', ''b1''), (''c0'', ''b0'')]
      else if src = ''contents of empty.car'' then WellFormed [] []
      else Malformed [])"

definition sampleB0 :: Block where
  "sampleB0 = \<lparr>Parents = UndefTipSetKey, Body = ''genesis''\<rparr>"

definition sampleB1 :: Block where
  "sampleB1 = \<lparr>Parents = TipSetKey [''c0''], Body = ''one''\<rparr>"

definition sampleB2 :: Block where
  "sampleB2 = \<lparr>Parents = TipSetKey [''c1'', ''cx''], Body = ''two''\<rparr>"

definition sample_DecodeBlock :: "bytes \<Rightarrow> string + Block" where
  "sample_DecodeBlock raw =
     (if raw = ''b0'' then Inr sampleB0
      else if raw = ''b1'' then Inr sampleB1
      else if raw = ''b2'' then Inr sampleB2
      else Inl ''cbor: decode error'')"

definition sample_json_Decode :: "bytes \<Rightarrow> string + WalletSerializeResult option" where
  "sample_json_Decode f =
     (if f = ''contents of wallet.json'' then Inr (Some \<lparr>KeyInfo = [''A'', ''B'', ''C'']\<rparr>)
      else if f = ''contents of empty-wallet.json'' then Inr (Some \<lparr>KeyInfo = []\<rparr>)
      else Inl ''invalid character'')"

definition sampleConfig :: "(string list, string, nat) Config" where
  "sampleConfig =
     \<lparr>SectorBase = \<lparr>RootDirPath = ''~/.filecoin/sectors'', PreSealedSectorsDirPath = []\<rparr>,
      Mining = \<lparr>MinerAddress = Undef, AutoSealIntervalSeconds_cfg = 120\<rparr>,
      Bootstrap = [], Drand = ''drand-default'', NetworkParams = 0\<rparr>"

definition sampleRepo :: "(string list, string, nat) Repo" where
  "sampleRepo =
     \<lparr>cfg = sampleConfig, stored = sampleConfig, datastore = Map.empty, replaced = []\<rparr>"

definition sampleEnv :: "(string list, string, nat) Env" where
  "sampleEnv =
     \<lparr>NewFromString = sample_NewFromString,
      InteropNet = \<lparr>Bootstrap_net = [''/dns4/interop/peer''], Drand_net = ''drand-interop'',
                    Network_net = 1\<rparr>,
      TestNet = \<lparr>Bootstrap_net = [''/dns4/testnet/peer''], Drand_net = ''drand-testnet'',
                  Network_net = 2\<rparr>,
      url_Parse = sample_url_Parse,
      http_Get = (\<lambda>u. if u = ''https://example.org/genesis.car''
                       then Inr ''contents of genesis.car'' else Inl ''connection refused''),
      os_Open = sample_os_Open,
      LoadCar = car_LoadCar sample_decodeCar,
      DecodeBlock = sample_DecodeBlock,
      ReadFile = (\<lambda>p. if p = ''peer.key'' then Inr ''peer key bytes''
                       else if p = ''bad.key'' then Inr ''not a key''
                       else Inl ''no such file or directory''),
      UnmarshalPrivateKey = (\<lambda>data. if data = ''peer key bytes'' then Inr (PrivKey data)
                                    else Inl ''malformed private key''),
      json_Decode = sample_json_Decode,
      GetRepoPath = (\<lambda>d. Inr (if d = [] then ''~/.filecoin'' else d)),
      Emit = (\<lambda>_. None),
      NewDefaultConfig = sampleConfig,
      InitFSRepo = (\<lambda>_ _. None),
      OpenFSRepo = (\<lambda>_. Inr sampleRepo),
      DefaultDrandIfaceFromConfig = (\<lambda>_. None),
      drand_Configure = (\<lambda>set addrs secure override c. set ''drand.addresses'' (concat addrs) c),
      Config_Set = (\<lambda>key json c. if key = ''drand.addresses'' then (None, c\<lparr>Drand := json\<rparr>)
                                   else (Some ''unknown configuration key'', c)),
      writeConfigFile = (\<lambda>old new. (None, new)),
      node_Init = (\<lambda>rep gif opts. (None, rep))\<rparr>"

definition minerOptions :: OptMap where
  "minerOptions =
     [WithMiner \<mapsto> StringVal ''t01000'', MinerActorAddress \<mapsto> StringVal ''t02000'']"

definition minerOptionsMainnet :: OptMap where
  "minerOptionsMainnet = minerOptions(Network \<mapsto> StringVal ''mainnet'')"

definition presealedOptions :: OptMap where
  "presealedOptions =
     [OptionPresealedSectorDir \<mapsto> StringVal ''/sealed'', WithMiner \<mapsto> StringVal [],
      AutoSealIntervalSeconds \<mapsto> UintVal 60]"

definition repoDirOf :: "OptMap \<Rightarrow> string" where
  "repoDirOf options =
     (case assertString (options OptionRepoDir) of Some s \<Rightarrow> s | None \<Rightarrow> [])"

definition genesisStore :: BlockStore where
  "genesisStore = putMany (NewBlockstore Map.empty) [(''c0'', ''b0'')]"

definition chainStore :: BlockStore where
  "chainStore =
     putMany (NewBlockstore Map.empty) [(''c2'', ''b2''), (''c1'', ''b1''), (''c0'', ''b0'')]"

definition sampleChain :: "(cid \<times> Block) list" where
  "sampleChain = [(''c2'', sampleB2), (''c1'', sampleB1), (''c0'', sampleB0)]"

definition minerConfig :: "(string list, string, nat) Config" where
  "minerConfig = setMinerAddress (Address ''t02000'') sampleConfig"

definition genesisOnlyOptions :: OptMap where
  "genesisOnlyOptions = [GenesisFile \<mapsto> StringVal ''genesis.car'']"

section \<open>Properties\<close>

subsection \<open>Auxiliary facts\<close>

lemmas optionNames = OptionRepoDir_def GenesisFile_def PeerKeyFile_def WalletKeyFile_def
  WithMiner_def OptionSectorDir_def MinerActorAddress_def AutoSealIntervalSeconds_def
  Network_def OptionPresealedSectorDir_def OptionDrandConfigAddr_def

lemma sample_env_fields [simp]:
  "NewFromString sampleEnv = sample_NewFromString"
  "url_Parse sampleEnv = sample_url_Parse"
  "os_Open sampleEnv = sample_os_Open"
  "LoadCar sampleEnv = car_LoadCar sample_decodeCar"
  "DecodeBlock sampleEnv = sample_DecodeBlock"
  "json_Decode sampleEnv = sample_json_Decode"
  by (simp_all add: sampleEnv_def)

lemma assertString_StringVal [simp]: "assertString (Some (StringVal s)) = Some s"
  by (simp add: assertString_def)

lemma assertString_None [simp]: "assertString None = None"
  by (simp add: assertString_def)

lemma typedOptions_cases:
  assumes "typedOptions options"
  obtains "options AutoSealIntervalSeconds = None"
  | n where "options AutoSealIntervalSeconds = Some (UintVal n)"
  using assms by (auto simp: typedOptions_def split: option.splits optval.splits)

lemma MinerAddress_setMinerAddress [simp]:
  "MinerAddress (Mining (setMinerAddress a c)) = a"
  by (simp add: setMinerAddress_def)

lemma Mining_sectorDir [simp]:
  "Mining (case x of None \<Rightarrow> c | Some dir \<Rightarrow> c\<lparr>SectorBase := h dir\<rparr>) = Mining c"
  by (cases x) simp_all

lemma Mining_setNetwork [simp]: "Mining (setNetwork net c) = Mining c"
  by (simp add: setNetwork_def)

lemma recognized_none:
  assumes "\<forall>k \<in> set recognizedOptions. options k = None"
  shows "options OptionSectorDir = None" "options WithMiner = None"
    "options AutoSealIntervalSeconds = None" "options MinerActorAddress = None"
    "options OptionPresealedSectorDir = None" "options Network = None"
  using assms by (simp_all add: recognizedOptions_def)

subsection \<open>Config synthesis\<close>

text \<open>
  C10. For every starting config, \<open>setConfigFromOptions\<close> on an option map that holds none
  of the recognized option keys returns no error and leaves the config as it was: the sector
  root path, the pre-sealed sector path, the miner address, the auto-seal interval, the
  bootstrap list, the drand configuration and the network parameters all keep their values.
\<close>

theorem setConfigFromOptions_no_recognized_option:
  assumes "\<forall>k \<in> set recognizedOptions. options k = None"
  shows "setConfigFromOptions env c options = (None, c)"
  by (simp add: setConfigFromOptions_def recognized_none[OF assms])

theorem setConfigFromOptions_no_recognized_option_witness:
  "genesisOnlyOptions GenesisFile = Some (StringVal ''genesis.car'')
   \<and> genesisOnlyOptions OptionSectorDir = None
   \<and> genesisOnlyOptions WithMiner = None
   \<and> genesisOnlyOptions AutoSealIntervalSeconds = None
   \<and> genesisOnlyOptions MinerActorAddress = None
   \<and> genesisOnlyOptions OptionPresealedSectorDir = None
   \<and> genesisOnlyOptions Network = None
   \<and> setConfigFromOptions sampleEnv sampleConfig genesisOnlyOptions = (None, sampleConfig)"
proof -
  have h: "\<forall>k \<in> set recognizedOptions. genesisOnlyOptions k = None"
    by (simp add: recognizedOptions_def genesisOnlyOptions_def optionNames)
  have g: "genesisOnlyOptions GenesisFile = Some (StringVal ''genesis.car'')"
    by (simp add: genesisOnlyOptions_def)
  from setConfigFromOptions_no_recognized_option [OF h, of sampleEnv sampleConfig]
    recognized_none [OF h] g
  show ?thesis by simp
qed

text \<open>
  C6. For every option map in which \<open>presealed-sector-dir\<close> is present and neither
  \<open>with-miner\<close> nor \<open>miner-actor-address\<close> has set a miner address (the miner address of the
  config is the undefined address to begin with, and each of the two options is absent, or
  fails to parse, or parses to the undefined address), \<open>setConfigFromOptions\<close> fails with an
  \<open>InvalidOption\<close> error, whatever the other options are. The option map is one the command
  framework can build: the auto-seal interval, when present, is a \<open>uint\<close>.
\<close>

theorem presealed_dir_requires_miner_address:
  assumes pre: "options OptionPresealedSectorDir = Some (StringVal dir)"
    and undef: "MinerAddress (Mining c) = Undef"
    and wm: "\<forall>m a. options WithMiner = Some (StringVal m) \<and> NewFromString env m = (a, None)
               \<longrightarrow> a = Undef"
    and ma: "\<forall>m a. options MinerActorAddress = Some (StringVal m)
               \<and> NewFromString env m = (a, None) \<longrightarrow> a = Undef"
    and typed: "typedOptions options"
  shows "\<exists>msg c'. setConfigFromOptions env c options = (Some (InvalidOption msg), c')"
proof -
  have P: "assertString (options OptionPresealedSectorDir) = Some dir"
    using pre by simp
  show ?thesis
  proof (cases "assertString (options WithMiner)")
    case None
    note W = None
    show ?thesis
    proof (cases "assertString (options MinerActorAddress)")
      case None
      from typed show ?thesis
        by (cases rule: typedOptions_cases)
           (simp_all add: setConfigFromOptions_def W None P undef Let_def)
    next
      case (Some x)
      note X = Some
      then have ox: "options MinerActorAddress = Some (StringVal x)"
        by (auto simp: assertString_def split: option.splits optval.splits)
      obtain a e where nx: "NewFromString env x = (a, e)"
        by (cases "NewFromString env x")
      show ?thesis
      proof (cases e)
        case None
        with ma ox nx have "a = Undef" by blast
        with typed show ?thesis
          by (cases rule: typedOptions_cases)
             (simp_all add: setConfigFromOptions_def W X P undef Let_def nx None)
      next
        case (Some err)
        with typed show ?thesis
          by (cases rule: typedOptions_cases)
             (simp_all add: setConfigFromOptions_def W X Let_def nx)
      qed
    qed
  next
    case (Some y)
    note W = Some
    then have oy: "options WithMiner = Some (StringVal y)"
      by (auto simp: assertString_def split: option.splits optval.splits)
    obtain ay ey where ny: "NewFromString env y = (ay, ey)"
      by (cases "NewFromString env y")
    show ?thesis
    proof (cases ey)
      case (Some err)
      then show ?thesis
        by (simp add: setConfigFromOptions_def W Let_def ny)
    next
      case None
      note EY = None
      with wm oy ny have ay: "ay = Undef" by blast
      show ?thesis
      proof (cases "assertString (options MinerActorAddress)")
        case None
        from typed show ?thesis
          by (cases rule: typedOptions_cases)
             (simp_all add: setConfigFromOptions_def W None P ay Let_def ny EY)
      next
        case (Some x)
        note X = Some
        then have ox: "options MinerActorAddress = Some (StringVal x)"
          by (auto simp: assertString_def split: option.splits optval.splits)
        obtain a e where nx: "NewFromString env x = (a, e)"
          by (cases "NewFromString env x")
        show ?thesis
        proof (cases e)
          case None
          with ma ox nx have "a = Undef" by blast
          with typed show ?thesis
            by (cases rule: typedOptions_cases)
               (simp_all add: setConfigFromOptions_def W X P Let_def nx ny None EY)
        next
          case (Some err)
          with typed show ?thesis
            by (cases rule: typedOptions_cases)
               (simp_all add: setConfigFromOptions_def W X Let_def nx ny EY)
        qed
      qed
    qed
  qed
qed

theorem presealed_dir_requires_miner_address_witness:
  "presealedOptions OptionPresealedSectorDir = Some (StringVal ''/sealed'')
   \<and> MinerAddress (Mining sampleConfig) = Undef
   \<and> presealedOptions WithMiner = Some (StringVal [])
   \<and> NewFromString sampleEnv [] = (Undef, None)
   \<and> presealedOptions MinerActorAddress = None
   \<and> presealedOptions AutoSealIntervalSeconds = Some (UintVal 60)
   \<and> typedOptions presealedOptions
   \<and> (\<exists>msg c'. setConfigFromOptions sampleEnv sampleConfig presealedOptions
          = (Some (InvalidOption msg), c'))"
proof -
  have h1: "presealedOptions OptionPresealedSectorDir = Some (StringVal ''/sealed'')"
    by (simp add: presealedOptions_def optionNames)
  have h2: "MinerAddress (Mining sampleConfig) = Undef"
    by (simp add: sampleConfig_def)
  have h3: "\<forall>m a. presealedOptions WithMiner = Some (StringVal m)
              \<and> NewFromString sampleEnv m = (a, None) \<longrightarrow> a = Undef"
    by (simp add: presealedOptions_def optionNames sample_NewFromString_def)
  have h4: "\<forall>m a. presealedOptions MinerActorAddress = Some (StringVal m)
              \<and> NewFromString sampleEnv m = (a, None) \<longrightarrow> a = Undef"
    by (simp add: presealedOptions_def optionNames)
  have h5: "typedOptions presealedOptions"
    by (simp add: typedOptions_def presealedOptions_def optionNames)
  have w: "presealedOptions WithMiner = Some (StringVal [])"
    and m: "presealedOptions MinerActorAddress = None"
    and a: "presealedOptions AutoSealIntervalSeconds = Some (UintVal 60)"
    by (simp_all add: presealedOptions_def optionNames)
  have n: "NewFromString sampleEnv [] = (Undef, None)"
    by (simp add: sample_NewFromString_def)
  from presealed_dir_requires_miner_address [OF h1 h2 h3 h4 h5] h1 h2 h5 w m a n
  show ?thesis by blast
qed

text \<open>
  C5 does not hold as stated: with both miner options supplied and valid, an unknown network
  name still makes \<open>setConfigFromOptions\<close> return an error.
\<close>

theorem miner_actor_address_unknown_network:
  "minerOptionsMainnet MinerActorAddress = Some (StringVal ''t02000'')
   \<and> minerOptionsMainnet WithMiner = Some (StringVal ''t01000'')
   \<and> NewFromString sampleEnv ''t02000'' = (Address ''t02000'', None)
   \<and> NewFromString sampleEnv ''t01000'' = (Address ''t01000'', None)
   \<and> fst (setConfigFromOptions sampleEnv sampleConfig minerOptionsMainnet)
       = Some (InvalidOption ''unknown network name mainnet'')"
  by (simp add: setConfigFromOptions_def minerOptionsMainnet_def minerOptions_def optionNames
      sample_NewFromString_def Let_def)

text \<open>
  C5, amended. For every option map the command framework can build in which both
  \<open>miner-actor-address=X\<close> and \<open>with-miner=Y\<close> are supplied and both parse as valid
  addresses, in which \<open>presealed-sector-dir\<close> is absent or \<open>X\<close> is not the undefined address,
  and in which the network name is absent, empty, \<open>interop\<close> or \<open>testnet\<close>,
  \<open>setConfigFromOptions\<close> succeeds and the miner address of the resulting config is \<open>X\<close>.
\<close>

theorem miner_actor_address_wins:
  assumes x: "options MinerActorAddress = Some (StringVal x)"
    and y: "options WithMiner = Some (StringVal y)"
    and px: "NewFromString env x = (ax, None)"
    and py: "NewFromString env y = (ay, None)"
    and typed: "typedOptions options"
    and pre: "assertString (options OptionPresealedSectorDir) = None \<or> ax \<noteq> Undef"
    and net: "assertString (options Network)
                \<in> {None, Some [], Some ''interop'', Some ''testnet''}"
  shows "\<exists>c'. setConfigFromOptions env c options = (None, c')
           \<and> MinerAddress (Mining c') = ax"
proof -
  have X: "assertString (options MinerActorAddress) = Some x"
    and Y: "assertString (options WithMiner) = Some y"
    using x y by simp_all
  from net consider "assertString (options Network) = None"
    | "assertString (options Network) = Some []"
    | "assertString (options Network) = Some ''interop''"
    | "assertString (options Network) = Some ''testnet''" by auto
  then show ?thesis
  proof cases
    case 1
    from typed pre show ?thesis
      by (cases rule: typedOptions_cases;
          cases "assertString (options OptionPresealedSectorDir)")
         (simp_all add: setConfigFromOptions_def X Y px py 1 Let_def)
  next
    case 2
    from typed pre show ?thesis
      by (cases rule: typedOptions_cases;
          cases "assertString (options OptionPresealedSectorDir)")
         (simp_all add: setConfigFromOptions_def X Y px py 2 Let_def)
  next
    case 3
    from typed pre show ?thesis
      by (cases rule: typedOptions_cases;
          cases "assertString (options OptionPresealedSectorDir)")
         (simp_all add: setConfigFromOptions_def X Y px py 3 Let_def)
  next
    case 4
    from typed pre show ?thesis
      by (cases rule: typedOptions_cases;
          cases "assertString (options OptionPresealedSectorDir)")
         (simp_all add: setConfigFromOptions_def X Y px py 4 Let_def)
  qed
qed

theorem miner_actor_address_wins_witness:
  "minerOptions MinerActorAddress = Some (StringVal ''t02000'')
   \<and> minerOptions WithMiner = Some (StringVal ''t01000'')
   \<and> NewFromString sampleEnv ''t02000'' = (Address ''t02000'', None)
   \<and> NewFromString sampleEnv ''t01000'' = (Address ''t01000'', None)
   \<and> typedOptions minerOptions
   \<and> assertString (minerOptions OptionPresealedSectorDir) = None
   \<and> assertString (minerOptions Network) = None
   \<and> (\<exists>c'. setConfigFromOptions sampleEnv sampleConfig minerOptions = (None, c')
          \<and> MinerAddress (Mining c') = Address ''t02000'')"
proof -
  have h1: "minerOptions MinerActorAddress = Some (StringVal ''t02000'')"
    and h2: "minerOptions WithMiner = Some (StringVal ''t01000'')"
    by (simp_all add: minerOptions_def optionNames)
  have h3: "NewFromString sampleEnv ''t02000'' = (Address ''t02000'', None)"
    and h4: "NewFromString sampleEnv ''t01000'' = (Address ''t01000'', None)"
    by (simp_all add: sample_NewFromString_def)
  have h5: "typedOptions minerOptions"
    by (simp add: typedOptions_def minerOptions_def optionNames)
  have h6: "assertString (minerOptions OptionPresealedSectorDir) = None
              \<or> Address ''t02000'' \<noteq> Undef"
    by (simp add: minerOptions_def optionNames)
  have h7: "assertString (minerOptions Network)
              \<in> {None, Some [], Some ''interop'', Some ''testnet''}"
    by (simp add: minerOptions_def optionNames)
  have p: "assertString (minerOptions OptionPresealedSectorDir) = None"
    and n: "assertString (minerOptions Network) = None"
    by (simp_all add: minerOptions_def optionNames)
  from miner_actor_address_wins [OF h1 h2 h3 h4 h5 h6 h7] h1 h2 h3 h4 h5 p n
  show ?thesis by blast
qed

subsection \<open>Genesis extraction\<close>

lemma linearChain_head:
  "linearChain env m ((c, b) # rest) \<Longrightarrow> resolves env m c b"
  by (cases rest) auto

lemma bs_Get_resolves:
  assumes "resolves env (blocks bs) c b"
  shows "\<exists>raw. bs_Get bs c = (Inr raw, bs\<lparr>gets := gets bs @ [c]\<rparr>)
           \<and> DecodeBlock env raw = Inr b"
  using assms by (auto simp: resolves_def bs_Get_def Let_def split: option.splits)

lemma walkToGenesis_genesis:
  "Parents b = UndefTipSetKey \<Longrightarrow> walkToGenesis env bs b = Some (Inr b, bs)"
  by (subst walkToGenesis.simps) (simp add: Equals_def)

lemma walkToGenesis_step:
  assumes "ToSlice (Parents b) = p # ps" and "resolves env (blocks bs) p b'"
  shows "walkToGenesis env bs b = walkToGenesis env (bs\<lparr>gets := gets bs @ [p]\<rparr>) b'"
proof -
  from assms(1) have ne: "Parents b \<noteq> UndefTipSetKey"
    by (cases "Parents b") (auto simp: UndefTipSetKey_def)
  from bs_Get_resolves[OF assms(2)] obtain raw where
    g: "bs_Get bs p = (Inr raw, bs\<lparr>gets := gets bs @ [p]\<rparr>)"
    and d: "DecodeBlock env raw = Inr b'"
    by blast
  show ?thesis
    by (subst walkToGenesis.simps) (simp add: Equals_def ne assms(1) g d)
qed

lemma walkToGenesis_chain:
  "linearChain env (blocks bs) ((c, b) # rest) \<Longrightarrow>
   walkToGenesis env bs b
     = Some (Inr (snd (last ((c, b) # rest))), bs\<lparr>gets := gets bs @ map fst rest\<rparr>)"
proof (induction rest arbitrary: c b bs)
  case Nil
  then show ?case by (simp add: walkToGenesis_genesis)
next
  case (Cons cb rest)
  obtain c' b' where cb: "cb = (c', b')" by (cases cb)
  from Cons.prems cb have
    link: "case ToSlice (Parents b) of [] \<Rightarrow> False | p # _ \<Rightarrow> p = c'"
    and sub: "linearChain env (blocks bs) ((c', b') # rest)" by simp_all
  from link obtain ps where sl: "ToSlice (Parents b) = c' # ps"
    by (cases "ToSlice (Parents b)") auto
  have r: "resolves env (blocks bs) c' b'" using sub by (rule linearChain_head)
  let ?bs = "bs\<lparr>gets := gets bs @ [c']\<rparr>"
  have "linearChain env (blocks ?bs) ((c', b') # rest)" using sub by simp
  from Cons.IH[OF this] walkToGenesis_step[OF sl r] cb
  show ?case by simp
qed

text \<open>The blocks of a linear chain are distinct.\<close>

lemma resolves_determ:
  "resolves env m c b \<Longrightarrow> resolves env m c b' \<Longrightarrow> b = b'"
  by (auto simp: resolves_def split: option.splits)

lemma linearChain_suffix:
  "linearChain env m (xs @ y # ys) \<Longrightarrow> linearChain env m (y # ys)"
proof (induction xs)
  case Nil
  then show ?case by simp
next
  case (Cons x xs)
  obtain c b where x: "x = (c, b)" by (cases x)
  obtain z zs where z: "xs @ y # ys = z # zs" by (cases "xs @ y # ys") auto
  obtain c' b' where z': "z = (c', b')" by (cases z)
  from Cons.prems x z z' have "linearChain env m (xs @ y # ys)" by simp
  then show ?case by (rule Cons.IH)
qed

lemma linearChain_length_determ:
  "linearChain env m ((c, b) # xs) \<Longrightarrow> linearChain env m ((c, b') # ys)
     \<Longrightarrow> length xs = length ys"
proof (induction xs arbitrary: c b b' ys)
  case Nil
  have "b = b'" using Nil linearChain_head resolves_determ by blast
  with Nil show ?case by (cases ys) (auto simp: UndefTipSetKey_def)
next
  case (Cons x xs)
  obtain c1 b1 where x: "x = (c1, b1)" by (cases x)
  have bb: "b = b'" using Cons.prems linearChain_head resolves_determ by blast
  from Cons.prems(1) x have
    l1: "case ToSlice (Parents b) of [] \<Rightarrow> False | p # _ \<Rightarrow> p = c1"
    and s1: "linearChain env m ((c1, b1) # xs)" by simp_all
  show ?case
  proof (cases ys)
    case Nil
    with Cons.prems(2) bb l1 show ?thesis by (auto simp: UndefTipSetKey_def)
  next
    case (Cons y ys')
    obtain c2 b2 where y: "y = (c2, b2)" by (cases y)
    from Cons.prems(2) Cons y have
      l2: "case ToSlice (Parents b') of [] \<Rightarrow> False | p # _ \<Rightarrow> p = c2"
      and s2: "linearChain env m ((c2, b2) # ys')" by simp_all
    from l1 l2 bb have "c1 = c2" by (auto split: list.splits)
    with s1 s2 Cons.IH have "length xs = length ys'" by blast
    with Cons show ?thesis by simp
  qed
qed

lemma linearChain_distinct:
  "linearChain env m chain \<Longrightarrow> distinct (map fst chain)"
proof (induction chain)
  case Nil
  then show ?case by simp
next
  case (Cons x rest)
  obtain c b where x: "x = (c, b)" by (cases x)
  have d: "distinct (map fst rest)"
  proof (cases rest)
    case Nil
    then show ?thesis by simp
  next
    case (Cons y ys)
    with Cons.prems have "linearChain env m rest"
      using linearChain_suffix[of env m "[x]" y ys] by simp
    then show ?thesis by (rule Cons.IH)
  qed
  have "c \<notin> fst ` set rest"
  proof
    assume "c \<in> fst ` set rest"
    then obtain b'' where "(c, b'') \<in> set rest" by auto
    then obtain us vs where sp: "rest = us @ (c, b'') # vs" by (auto dest: split_list)
    with Cons.prems x have "linearChain env m (((c, b) # us) @ (c, b'') # vs)" by simp
    then have "linearChain env m ((c, b'') # vs)" by (rule linearChain_suffix)
    with Cons.prems x have "length rest = length vs"
      using linearChain_length_determ by blast
    with sp show False by simp
  qed
  with d x show ?case by simp
qed

lemma sample_stores [simp]:
  "car_LoadCar sample_decodeCar (NewBlockstore (datastore sampleRepo)) ''contents of genesis.car''
     = (Inr \<lparr>Roots = [''c0'']\<rparr>, genesisStore)"
  "car_LoadCar sample_decodeCar (NewBlockstore (datastore sampleRepo)) ''contents of chain.car''
     = (Inr \<lparr>Roots = [''c2'']\<rparr>, chainStore)"
  by (simp_all add: car_LoadCar_def sample_decodeCar_def sampleRepo_def genesisStore_def
      chainStore_def)

lemma sample_store_blocks [simp]:
  "blocks genesisStore ''c0'' = Some ''b0''"
  "blocks chainStore ''c0'' = Some ''b0''"
  "blocks chainStore ''c1'' = Some ''b1''"
  "blocks chainStore ''c2'' = Some ''b2''"
  by (simp_all add: genesisStore_def chainStore_def putMany_def NewBlockstore_def)

lemma sample_store_gets [simp]: "gets genesisStore = []" "gets chainStore = []"
  by (simp_all add: genesisStore_def chainStore_def putMany_def NewBlockstore_def)

lemma sample_decoded [simp]:
  "sample_DecodeBlock ''b0'' = Inr sampleB0"
  "sample_DecodeBlock ''b1'' = Inr sampleB1"
  "sample_DecodeBlock ''b2'' = Inr sampleB2"
  by (simp_all add: sample_DecodeBlock_def)

text \<open>
  C1. For every archive whose first declared root CID resolves to a block whose parents are
  the undefined tipset key, \<open>extractGenesisBlock\<close> returns exactly that block, and the
  only fetch it makes from the block store is the one of the root: zero parent hops.
\<close>

theorem extractGenesisBlock_root_is_genesis:
  assumes "LoadCar env (NewBlockstore (datastore rep)) source = (Inr ch, bs1)"
    and "Roots ch = r # rs"
    and "blocks bs1 r = Some raw"
    and "DecodeBlock env raw = Inr b"
    and "Parents b = UndefTipSetKey"
  shows "extractGenesisBlock env source rep = Some (Inr b, bs1\<lparr>gets := gets bs1 @ [r]\<rparr>)
         \<and> hopsSince bs1 (bs1\<lparr>gets := gets bs1 @ [r]\<rparr>) = 0"
  using assms
  by (simp add: extractGenesisBlock_def bs_Get_def Let_def Equals_def hopsSince_def)

theorem extractGenesisBlock_root_is_genesis_witness:
  "LoadCar sampleEnv (NewBlockstore (datastore sampleRepo)) ''contents of genesis.car''
     = (Inr \<lparr>Roots = [''c0'']\<rparr>, genesisStore)
   \<and> Roots \<lparr>Roots = [''c0'']\<rparr> = ''c0'' # []
   \<and> blocks genesisStore ''c0'' = Some ''b0''
   \<and> DecodeBlock sampleEnv ''b0'' = Inr sampleB0
   \<and> Parents sampleB0 = UndefTipSetKey
   \<and> extractGenesisBlock sampleEnv ''contents of genesis.car'' sampleRepo
       = Some (Inr sampleB0, genesisStore\<lparr>gets := [''c0'']\<rparr>)
   \<and> hopsSince genesisStore (genesisStore\<lparr>gets := [''c0'']\<rparr>) = 0"
proof -
  have h1: "LoadCar sampleEnv (NewBlockstore (datastore sampleRepo)) ''contents of genesis.car''
     = (Inr \<lparr>Roots = [''c0'']\<rparr>, genesisStore)" by simp
  have h2: "Roots \<lparr>Roots = [''c0'']\<rparr> = ''c0'' # []" by simp
  have h3: "blocks genesisStore ''c0'' = Some ''b0''" by simp
  have h4: "DecodeBlock sampleEnv ''b0'' = Inr sampleB0" by simp
  have h5: "Parents sampleB0 = UndefTipSetKey" by (simp add: sampleB0_def)
  from extractGenesisBlock_root_is_genesis [OF h1 h2 h3 h4 h5] h1 h2 h3 h4 h5
  show ?thesis by simp
qed

text \<open>
  C2. For every linear chain of \<open>N\<close> blocks, all in the block store, whose last block has
  the undefined parents and whose first block is the first root of the archive,
  \<open>extractGenesisBlock\<close> returns the last block of the chain (the genesis block), fetches
  the blocks of the chain in order, each hop following the first CID of the parents of the
  current block, and makes exactly \<open>N - 1\<close> parent hops. The blocks of such a chain are
  distinct without being assumed so.
\<close>

theorem extractGenesisBlock_linear_chain:
  assumes load: "LoadCar env (NewBlockstore (datastore rep)) source = (Inr ch, bs1)"
    and roots: "Roots ch = fst (hd chain) # rs"
    and chain: "linearChain env (blocks bs1) chain"
  shows "extractGenesisBlock env source rep
           = Some (Inr (snd (last chain)), bs1\<lparr>gets := gets bs1 @ map fst chain\<rparr>)
         \<and> hopsSince bs1 (bs1\<lparr>gets := gets bs1 @ map fst chain\<rparr>) = length chain - 1"
proof -
  from chain obtain c b rest where ch: "chain = (c, b) # rest"
    by (cases chain) auto
  have r: "resolves env (blocks bs1) c b" using chain ch linearChain_head by blast
  from bs_Get_resolves[OF r] obtain raw where
    g: "bs_Get bs1 c = (Inr raw, bs1\<lparr>gets := gets bs1 @ [c]\<rparr>)"
    and d: "DecodeBlock env raw = Inr b"
    by blast
  let ?bs2 = "bs1\<lparr>gets := gets bs1 @ [c]\<rparr>"
  let ?end = "bs1\<lparr>gets := gets bs1 @ map fst chain\<rparr>"
  have "linearChain env (blocks ?bs2) ((c, b) # rest)" using chain ch by simp
  from walkToGenesis_chain[OF this]
  have w: "walkToGenesis env ?bs2 b = Some (Inr (snd (last chain)), ?end)"
    by (simp add: ch)
  have e: "extractGenesisBlock env source rep = Some (Inr (snd (last chain)), ?end)"
  proof (cases "Parents b = UndefTipSetKey")
    case True
    with w have "Some (Inr b, ?bs2) = Some (Inr (snd (last chain)), ?end)"
      by (simp add: walkToGenesis_genesis)
    with True show ?thesis using load roots
      by (simp add: extractGenesisBlock_def Let_def ch g d Equals_def)
  next
    case False
    then show ?thesis using load roots w
      by (simp add: extractGenesisBlock_def Let_def ch g d Equals_def)
  qed
  show ?thesis using e by (simp add: hopsSince_def)
qed

theorem extractGenesisBlock_linear_chain_witness:
  "LoadCar sampleEnv (NewBlockstore (datastore sampleRepo)) ''contents of chain.car''
     = (Inr \<lparr>Roots = [''c2'']\<rparr>, chainStore)
   \<and> Roots \<lparr>Roots = [''c2'']\<rparr> = fst (hd sampleChain) # []
   \<and> linearChain sampleEnv (blocks chainStore) sampleChain
   \<and> extractGenesisBlock sampleEnv ''contents of chain.car'' sampleRepo
       = Some (Inr sampleB0, chainStore\<lparr>gets := [''c2'', ''c1'', ''c0'']\<rparr>)
   \<and> hopsSince chainStore (chainStore\<lparr>gets := [''c2'', ''c1'', ''c0'']\<rparr>) = 2"
proof -
  have h1: "LoadCar sampleEnv (NewBlockstore (datastore sampleRepo)) ''contents of chain.car''
     = (Inr \<lparr>Roots = [''c2'']\<rparr>, chainStore)" by simp
  have h2: "Roots \<lparr>Roots = [''c2'']\<rparr> = fst (hd sampleChain) # []"
    by (simp add: sampleChain_def)
  have h3: "linearChain sampleEnv (blocks chainStore) sampleChain"
    by (simp add: sampleChain_def resolves_def sampleB0_def sampleB1_def sampleB2_def)
  from extractGenesisBlock_linear_chain [OF h1 h2 h3] h1 h2 h3
  show ?thesis by (simp add: sampleChain_def)
qed

text \<open>
  \<^verbatim>\<open>init.go\<close> itself does not test the root list: were a loader to return an empty one
  without an error, \<^verbatim>\<open>ch.Roots[0]\<close> would panic.
\<close>

lemma extractGenesisBlock_no_roots_panics:
  assumes "LoadCar env (NewBlockstore (datastore rep)) source = (Inr ch, bs1)"
    and "Roots ch = []"
  shows "extractGenesisBlock env source rep
           = Some (Inl (Panic ''index out of range [0] with length 0''), bs1)"
  using assms by (simp add: extractGenesisBlock_def Let_def)

text \<open>
  C3. For every archive that decodes successfully but declares an empty list of root CIDs,
  genesis extraction, run with the loader of the design document, fails with
  \<open>MissingRootBlock\<close>; it returns no block and fetches none.
\<close>

theorem extractGenesisBlock_empty_roots:
  assumes "LoadCar env = car_LoadCar decodeCar"
    and "decodeCar source = WellFormed [] kvs"
  shows "extractGenesisBlock env source rep
           = Some (Inl MissingRootBlock, NewBlockstore (datastore rep))"
  using assms by (simp add: extractGenesisBlock_def car_LoadCar_def Let_def)

theorem extractGenesisBlock_empty_roots_witness:
  "LoadCar sampleEnv = car_LoadCar sample_decodeCar
   \<and> sample_decodeCar ''contents of empty.car'' = WellFormed [] []
   \<and> extractGenesisBlock sampleEnv ''contents of empty.car'' sampleRepo
       = Some (Inl MissingRootBlock, NewBlockstore (datastore sampleRepo))"
proof -
  have h1: "LoadCar sampleEnv = car_LoadCar sample_decodeCar" by simp
  have h2: "sample_decodeCar ''contents of empty.car'' = WellFormed [] []"
    by (simp add: sample_decodeCar_def)
  from extractGenesisBlock_empty_roots [OF h1 h2] h1 h2
  show ?thesis by simp
qed

subsection \<open>The archive source\<close>

text \<open>
  C7 does not hold as stated: a non-empty string that \<^verbatim>\<open>url.Parse\<close> rejects is not
  treated as a local path. The file \<^verbatim>\<open>100%.car\<close> exists and can be opened, and
  \<open>openGenesisSource\<close> returns the error of line 247 without opening it.
\<close>

theorem openGenesisSource_unparsable_path:
  "url_Parse sampleEnv ''100%.car'' = Inl ''invalid URL escape''
   \<and> os_Open sampleEnv ''100%.car'' = Inr ''contents of 100%.car''
   \<and> openGenesisSource sampleEnv ''100%.car''
       = (Inl (InvalidSource ''invalid filepath or URL for genesis file: <nil>''), [])"
  by (simp add: openGenesisSource_def sample_url_Parse_def sample_os_Open_def sampleFiles_def
      isHex_def)

text \<open>
  C7, amended. For every source string that parses as a URL, \<open>openGenesisSource\<close>
  dispatches by the scheme: with the scheme \<open>http\<close> or \<open>https\<close> it makes one HTTP fetch
  and yields the body (or fails with \<open>SourceUnavailable\<close> when the fetch fails); with any
  other non-empty scheme it fails with \<open>UnsupportedScheme\<close> and opens no stream; with no
  scheme it opens the string as a local path and yields the file, or fails with
  \<open>SourceUnavailable\<close> when the file cannot be opened. A string that does not parse as a URL
  fails with an invalid-source error and no stream is opened.
\<close>

theorem openGenesisSource_dispatch:
  "(\<forall>u body. url_Parse env s = Inr u \<and> (Scheme u = ''http'' \<or> Scheme u = ''https'')
        \<and> http_Get env s = Inr body
      \<longrightarrow> openGenesisSource env s = (Inr body, [HttpGet s]))
   \<and> (\<forall>u e. url_Parse env s = Inr u \<and> (Scheme u = ''http'' \<or> Scheme u = ''https'')
        \<and> http_Get env s = Inl e
      \<longrightarrow> openGenesisSource env s = (Inl (SourceUnavailable e), [HttpGet s]))
   \<and> (\<forall>u. url_Parse env s = Inr u \<and> Scheme u \<noteq> ''http'' \<and> Scheme u \<noteq> ''https''
        \<and> Scheme u \<noteq> []
      \<longrightarrow> (\<exists>msg. openGenesisSource env s = (Inl (UnsupportedScheme msg), [])))
   \<and> (\<forall>u file. url_Parse env s = Inr u \<and> Scheme u = [] \<and> os_Open env s = Inr file
      \<longrightarrow> openGenesisSource env s = (Inr file, [FileOpen s]))
   \<and> (\<forall>u e. url_Parse env s = Inr u \<and> Scheme u = [] \<and> os_Open env s = Inl e
      \<longrightarrow> openGenesisSource env s = (Inl (SourceUnavailable e), [FileOpen s]))
   \<and> (\<forall>e. url_Parse env s = Inl e
      \<longrightarrow> (\<exists>msg. openGenesisSource env s = (Inl (InvalidSource msg), [])))"
  by (auto simp: openGenesisSource_def)

lemma sample_urls:
  "url_Parse sampleEnv ''https://example.org/genesis.car'' = Inr \<lparr>Scheme = ''https''\<rparr>"
  "url_Parse sampleEnv ''http://example.org/genesis.car'' = Inr \<lparr>Scheme = ''http''\<rparr>"
  "url_Parse sampleEnv ''ftp://host/genesis.car'' = Inr \<lparr>Scheme = ''ftp''\<rparr>"
  "url_Parse sampleEnv ''genesis.car'' = Inr \<lparr>Scheme = []\<rparr>"
  "url_Parse sampleEnv ''missing.car'' = Inr \<lparr>Scheme = []\<rparr>"
  by (simp_all add: sample_url_Parse_def getScheme_def isLetter_def)

lemma sample_streams:
  "http_Get sampleEnv ''https://example.org/genesis.car'' = Inr ''contents of genesis.car''"
  "http_Get sampleEnv ''http://example.org/genesis.car'' = Inl ''connection refused''"
  "os_Open sampleEnv ''genesis.car'' = Inr ''contents of genesis.car''"
  "os_Open sampleEnv ''missing.car'' = Inl ''open missing.car: no such file or directory''"
  by (simp_all add: sampleEnv_def sample_os_Open_def sampleFiles_def)

theorem openGenesisSource_dispatch_witness:
  "url_Parse sampleEnv ''https://example.org/genesis.car'' = Inr \<lparr>Scheme = ''https''\<rparr>
   \<and> http_Get sampleEnv ''https://example.org/genesis.car'' = Inr ''contents of genesis.car''
   \<and> openGenesisSource sampleEnv ''https://example.org/genesis.car''
       = (Inr ''contents of genesis.car'', [HttpGet ''https://example.org/genesis.car''])
   \<and> url_Parse sampleEnv ''http://example.org/genesis.car'' = Inr \<lparr>Scheme = ''http''\<rparr>
   \<and> http_Get sampleEnv ''http://example.org/genesis.car'' = Inl ''connection refused''
   \<and> openGenesisSource sampleEnv ''http://example.org/genesis.car''
       = (Inl (SourceUnavailable ''connection refused''),
          [HttpGet ''http://example.org/genesis.car''])
   \<and> url_Parse sampleEnv ''ftp://host/genesis.car'' = Inr \<lparr>Scheme = ''ftp''\<rparr>
   \<and> (\<exists>msg. openGenesisSource sampleEnv ''ftp://host/genesis.car''
          = (Inl (UnsupportedScheme msg), []))
   \<and> url_Parse sampleEnv ''genesis.car'' = Inr \<lparr>Scheme = []\<rparr>
   \<and> os_Open sampleEnv ''genesis.car'' = Inr ''contents of genesis.car''
   \<and> openGenesisSource sampleEnv ''genesis.car''
       = (Inr ''contents of genesis.car'', [FileOpen ''genesis.car''])
   \<and> url_Parse sampleEnv ''missing.car'' = Inr \<lparr>Scheme = []\<rparr>
   \<and> os_Open sampleEnv ''missing.car'' = Inl ''open missing.car: no such file or directory''
   \<and> openGenesisSource sampleEnv ''missing.car''
       = (Inl (SourceUnavailable ''open missing.car: no such file or directory''),
          [FileOpen ''missing.car''])
   \<and> url_Parse sampleEnv ''100%.car'' = Inl ''invalid URL escape''
   \<and> (\<exists>msg. openGenesisSource sampleEnv ''100%.car'' = (Inl (InvalidSource msg), []))"
proof -
  have bad: "url_Parse sampleEnv ''100%.car'' = Inl ''invalid URL escape''"
    by (simp add: sample_url_Parse_def isHex_def)
  have ftp: "Scheme \<lparr>Scheme = ''ftp''\<rparr> \<noteq> ''http''" "Scheme \<lparr>Scheme = ''ftp''\<rparr> \<noteq> ''https''"
    "Scheme \<lparr>Scheme = ''ftp''\<rparr> \<noteq> []" by simp_all
  have s0: "Scheme \<lparr>Scheme = []\<rparr> = []" by simp
  have s1: "Scheme \<lparr>Scheme = ''https''\<rparr> = ''http'' \<or> Scheme \<lparr>Scheme = ''https''\<rparr> = ''https''"
    and s2: "Scheme \<lparr>Scheme = ''http''\<rparr> = ''http'' \<or> Scheme \<lparr>Scheme = ''http''\<rparr> = ''https''"
    by simp_all
  from openGenesisSource_dispatch [of sampleEnv "''https://example.org/genesis.car''"]
    sample_urls(1) s1 sample_streams(1)
  have a: "openGenesisSource sampleEnv ''https://example.org/genesis.car''
       = (Inr ''contents of genesis.car'', [HttpGet ''https://example.org/genesis.car''])"
    by blast
  from openGenesisSource_dispatch [of sampleEnv "''http://example.org/genesis.car''"]
    sample_urls(2) s2 sample_streams(2)
  have b: "openGenesisSource sampleEnv ''http://example.org/genesis.car''
       = (Inl (SourceUnavailable ''connection refused''),
          [HttpGet ''http://example.org/genesis.car''])"
    by blast
  from openGenesisSource_dispatch [of sampleEnv "''ftp://host/genesis.car''"]
    sample_urls(3) ftp
  have c: "\<exists>msg. openGenesisSource sampleEnv ''ftp://host/genesis.car''
          = (Inl (UnsupportedScheme msg), [])"
    by blast
  from openGenesisSource_dispatch [of sampleEnv "''genesis.car''"]
    sample_urls(4) s0 sample_streams(3)
  have d: "openGenesisSource sampleEnv ''genesis.car''
       = (Inr ''contents of genesis.car'', [FileOpen ''genesis.car''])"
    by blast
  from openGenesisSource_dispatch [of sampleEnv "''missing.car''"]
    sample_urls(5) s0 sample_streams(4)
  have e: "openGenesisSource sampleEnv ''missing.car''
       = (Inl (SourceUnavailable ''open missing.car: no such file or directory''),
          [FileOpen ''missing.car''])"
    by blast
  from openGenesisSource_dispatch [of sampleEnv "''100%.car''"] bad
  have f: "\<exists>msg. openGenesisSource sampleEnv ''100%.car'' = (Inl (InvalidSource msg), [])"
    by blast
  from a b c d e f bad sample_urls sample_streams show ?thesis by blast
qed

subsection \<open>Initialisation directives\<close>

lemma foldl_ImportKeyOpt:
  "foldl (\<lambda>acc k. acc @ [ImportKeyOpt k]) acc0 ks = acc0 @ map ImportKeyOpt ks"
  by (induction ks arbitrary: acc0) simp_all

lemma getNodeInitOpts_returned:
  assumes "getNodeInitOpts env p w = Inr opts"
  shows "\<exists>peerPart walletPart. opts = peerPart @ walletPart
     \<and> (if p = [] then peerPart = []
         else \<exists>data k. ReadFile env p = Inr data \<and> UnmarshalPrivateKey env data = Inr k
                \<and> peerPart = [PeerKeyOpt k])
     \<and> (if w = [] then walletPart = []
         else \<exists>f wir k ks. os_Open env w = Inr f \<and> json_Decode env f = Inr (Some wir)
                \<and> KeyInfo wir = k # ks
                \<and> walletPart = DefaultKeyOpt k # map ImportKeyOpt ks)"
  using assms
  apply (simp add: getNodeInitOpts_def foldl_ImportKeyOpt
      split: if_splits sum.splits option.splits)
  apply (auto simp: neq_Nil_conv)
  done

text \<open>
  C8. For every pair of paths, the directive list \<open>getNodeInitOpts\<close> returns is the peer
  part followed by the wallet part. The peer part is the peer-identity directive when a peer
  key file path was given and the file was read and parsed, and is empty when no path was
  given; when a path was given and the file cannot be read or parsed the call fails and
  returns no list. The wallet part of a wallet file is the first key record as the default
  key and every further one as an import, in the order of the file, so that the records
  \<open>[A, B, C]\<close> give \<open>[DefaultKeyOpt A, ImportKeyOpt B, ImportKeyOpt C]\<close>; without a wallet
  file there is no wallet directive, and with neither path the result is the empty list and
  not an error.
\<close>

theorem getNodeInitOpts_order:
  "(\<forall>opts. getNodeInitOpts env peerKeyFile walletKeyFile = Inr opts \<longrightarrow>
      (\<exists>peerPart walletPart. opts = peerPart @ walletPart
         \<and> (if peerKeyFile = [] then peerPart = []
             else \<exists>data k. ReadFile env peerKeyFile = Inr data
                    \<and> UnmarshalPrivateKey env data = Inr k \<and> peerPart = [PeerKeyOpt k])
         \<and> (if walletKeyFile = [] then walletPart = []
             else \<exists>f wir k ks. os_Open env walletKeyFile = Inr f
                    \<and> json_Decode env f = Inr (Some wir) \<and> KeyInfo wir = k # ks
                    \<and> walletPart = DefaultKeyOpt k # map ImportKeyOpt ks)))
   \<and> (\<forall>e. peerKeyFile \<noteq> [] \<and> ReadFile env peerKeyFile = Inl e \<longrightarrow>
         getNodeInitOpts env peerKeyFile walletKeyFile = Inl (KeyImportFailure e))
   \<and> (\<forall>data e. peerKeyFile \<noteq> [] \<and> ReadFile env peerKeyFile = Inr data
         \<and> UnmarshalPrivateKey env data = Inl e \<longrightarrow>
         getNodeInitOpts env peerKeyFile walletKeyFile = Inl (KeyImportFailure e))
   \<and> (\<forall>peerPart.
         (if peerKeyFile = [] then peerPart = []
          else \<exists>data k. ReadFile env peerKeyFile = Inr data
                 \<and> UnmarshalPrivateKey env data = Inr k \<and> peerPart = [PeerKeyOpt k])
         \<and> walletKeyFile = [] \<longrightarrow>
         getNodeInitOpts env peerKeyFile walletKeyFile = Inr peerPart)
   \<and> (\<forall>peerPart f wir k ks.
         (if peerKeyFile = [] then peerPart = []
          else \<exists>data k. ReadFile env peerKeyFile = Inr data
                 \<and> UnmarshalPrivateKey env data = Inr k \<and> peerPart = [PeerKeyOpt k])
         \<and> walletKeyFile \<noteq> [] \<and> os_Open env walletKeyFile = Inr f
         \<and> json_Decode env f = Inr (Some wir) \<and> KeyInfo wir = k # ks \<longrightarrow>
         getNodeInitOpts env peerKeyFile walletKeyFile
           = Inr (peerPart @ DefaultKeyOpt k # map ImportKeyOpt ks))
   \<and> (\<forall>peerPart f wir A B C.
         (if peerKeyFile = [] then peerPart = []
          else \<exists>data k. ReadFile env peerKeyFile = Inr data
                 \<and> UnmarshalPrivateKey env data = Inr k \<and> peerPart = [PeerKeyOpt k])
         \<and> walletKeyFile \<noteq> [] \<and> os_Open env walletKeyFile = Inr f
         \<and> json_Decode env f = Inr (Some wir) \<and> KeyInfo wir = [A, B, C] \<longrightarrow>
         getNodeInitOpts env peerKeyFile walletKeyFile
           = Inr (peerPart @ [DefaultKeyOpt A, ImportKeyOpt B, ImportKeyOpt C]))
   \<and> getNodeInitOpts env [] [] = Inr []"
proof (intro conjI allI impI)
  fix opts
  assume "getNodeInitOpts env peerKeyFile walletKeyFile = Inr opts"
  then show "\<exists>peerPart walletPart. opts = peerPart @ walletPart
         \<and> (if peerKeyFile = [] then peerPart = []
             else \<exists>data k. ReadFile env peerKeyFile = Inr data
                    \<and> UnmarshalPrivateKey env data = Inr k \<and> peerPart = [PeerKeyOpt k])
         \<and> (if walletKeyFile = [] then walletPart = []
             else \<exists>f wir k ks. os_Open env walletKeyFile = Inr f
                    \<and> json_Decode env f = Inr (Some wir) \<and> KeyInfo wir = k # ks
                    \<and> walletPart = DefaultKeyOpt k # map ImportKeyOpt ks)"
    by (rule getNodeInitOpts_returned)
next
  fix e
  assume "peerKeyFile \<noteq> [] \<and> ReadFile env peerKeyFile = Inl e"
  then show "getNodeInitOpts env peerKeyFile walletKeyFile = Inl (KeyImportFailure e)"
    by (simp add: getNodeInitOpts_def)
next
  fix data e
  assume "peerKeyFile \<noteq> [] \<and> ReadFile env peerKeyFile = Inr data
     \<and> UnmarshalPrivateKey env data = Inl e"
  then show "getNodeInitOpts env peerKeyFile walletKeyFile = Inl (KeyImportFailure e)"
    by (simp add: getNodeInitOpts_def)
next
  fix peerPart
  assume "(if peerKeyFile = [] then peerPart = []
          else \<exists>data k. ReadFile env peerKeyFile = Inr data
                 \<and> UnmarshalPrivateKey env data = Inr k \<and> peerPart = [PeerKeyOpt k])
     \<and> walletKeyFile = []"
  then show "getNodeInitOpts env peerKeyFile walletKeyFile = Inr peerPart"
    by (cases "peerKeyFile = []") (auto simp: getNodeInitOpts_def)
next
  fix peerPart f wir k ks
  assume "(if peerKeyFile = [] then peerPart = []
          else \<exists>data k. ReadFile env peerKeyFile = Inr data
                 \<and> UnmarshalPrivateKey env data = Inr k \<and> peerPart = [PeerKeyOpt k])
     \<and> walletKeyFile \<noteq> [] \<and> os_Open env walletKeyFile = Inr f
     \<and> json_Decode env f = Inr (Some wir) \<and> KeyInfo wir = k # ks"
  then show "getNodeInitOpts env peerKeyFile walletKeyFile
      = Inr (peerPart @ DefaultKeyOpt k # map ImportKeyOpt ks)"
    by (cases "peerKeyFile = []") (auto simp: getNodeInitOpts_def foldl_ImportKeyOpt)
next
  fix peerPart f wir A B C
  assume "(if peerKeyFile = [] then peerPart = []
          else \<exists>data k. ReadFile env peerKeyFile = Inr data
                 \<and> UnmarshalPrivateKey env data = Inr k \<and> peerPart = [PeerKeyOpt k])
     \<and> walletKeyFile \<noteq> [] \<and> os_Open env walletKeyFile = Inr f
     \<and> json_Decode env f = Inr (Some wir) \<and> KeyInfo wir = [A, B, C]"
  then show "getNodeInitOpts env peerKeyFile walletKeyFile
      = Inr (peerPart @ [DefaultKeyOpt A, ImportKeyOpt B, ImportKeyOpt C])"
    by (cases "peerKeyFile = []") (auto simp: getNodeInitOpts_def)
next
  show "getNodeInitOpts env [] [] = Inr []"
    by (simp add: getNodeInitOpts_def)
qed

lemma sample_keys:
  "ReadFile sampleEnv ''peer.key'' = Inr ''peer key bytes''"
  "UnmarshalPrivateKey sampleEnv ''peer key bytes'' = Inr (PrivKey ''peer key bytes'')"
  "os_Open sampleEnv ''wallet.json'' = Inr ''contents of wallet.json''"
  "json_Decode sampleEnv ''contents of wallet.json''
     = Inr (Some \<lparr>KeyInfo = [''A'', ''B'', ''C'']\<rparr>)"
  by (simp_all add: sampleEnv_def sample_os_Open_def sampleFiles_def sample_json_Decode_def)

lemma sample_bad_keys:
  "ReadFile sampleEnv ''missing.key'' = Inl ''no such file or directory''"
  "ReadFile sampleEnv ''wallet.json'' = Inl ''no such file or directory''"
  "ReadFile sampleEnv ''bad.key'' = Inr ''not a key''"
  "UnmarshalPrivateKey sampleEnv ''not a key'' = Inl ''malformed private key''"
  by (simp_all add: sampleEnv_def)

theorem getNodeInitOpts_order_witness:
  "ReadFile sampleEnv ''peer.key'' = Inr ''peer key bytes''
   \<and> UnmarshalPrivateKey sampleEnv ''peer key bytes'' = Inr (PrivKey ''peer key bytes'')
   \<and> os_Open sampleEnv ''wallet.json'' = Inr ''contents of wallet.json''
   \<and> json_Decode sampleEnv ''contents of wallet.json''
       = Inr (Some \<lparr>KeyInfo = [''A'', ''B'', ''C'']\<rparr>)
   \<and> getNodeInitOpts sampleEnv ''peer.key'' ''wallet.json''
       = Inr [PeerKeyOpt (PrivKey ''peer key bytes''), DefaultKeyOpt ''A'',
              ImportKeyOpt ''B'', ImportKeyOpt ''C'']
   \<and> getNodeInitOpts sampleEnv ''peer.key'' []
       = Inr [PeerKeyOpt (PrivKey ''peer key bytes'')]
   \<and> getNodeInitOpts sampleEnv [] ''wallet.json''
       = Inr [DefaultKeyOpt ''A'', ImportKeyOpt ''B'', ImportKeyOpt ''C'']
   \<and> ReadFile sampleEnv ''missing.key'' = Inl ''no such file or directory''
   \<and> getNodeInitOpts sampleEnv ''missing.key'' ''wallet.json''
       = Inl (KeyImportFailure ''no such file or directory'')
   \<and> ReadFile sampleEnv ''bad.key'' = Inr ''not a key''
   \<and> UnmarshalPrivateKey sampleEnv ''not a key'' = Inl ''malformed private key''
   \<and> getNodeInitOpts sampleEnv ''bad.key'' ''wallet.json''
       = Inl (KeyImportFailure ''malformed private key'')"
proof -
  have pk: "if ''peer.key'' = [] then [PeerKeyOpt (PrivKey ''peer key bytes'')] = []
            else \<exists>data k. ReadFile sampleEnv ''peer.key'' = Inr data
                   \<and> UnmarshalPrivateKey sampleEnv data = Inr k
                   \<and> [PeerKeyOpt (PrivKey ''peer key bytes'')] = [PeerKeyOpt k]"
    by (simp add: sample_keys)
  have nk: "if ([]::string) = [] then ([]::InitOpt list) = []
            else \<exists>data k. ReadFile sampleEnv [] = Inr data
                   \<and> UnmarshalPrivateKey sampleEnv data = Inr k \<and> [] = [PeerKeyOpt k]"
    by simp
  have k: "KeyInfo \<lparr>KeyInfo = [''A'', ''B'', ''C'']\<rparr> = [''A'', ''B'', ''C'']" by simp
  have ne: "''wallet.json'' \<noteq> []" "''peer.key'' \<noteq> []" "''missing.key'' \<noteq> []"
    "''bad.key'' \<noteq> []" by simp_all
  note t1 = getNodeInitOpts_order [of sampleEnv "''peer.key''" "''wallet.json''"]
  note t2 = getNodeInitOpts_order [of sampleEnv "''peer.key''" "[]"]
  note t3 = getNodeInitOpts_order [of sampleEnv "[]" "''wallet.json''"]
  note t4 = getNodeInitOpts_order [of sampleEnv "''missing.key''" "''wallet.json''"]
  note t5 = getNodeInitOpts_order [of sampleEnv "''bad.key''" "''wallet.json''"]
  from t1 [THEN conjunct2, THEN conjunct2, THEN conjunct2, THEN conjunct2, THEN conjunct2,
      THEN conjunct1, rule_format,
      of "[PeerKeyOpt (PrivKey ''peer key bytes'')]" "''contents of wallet.json''"
         "\<lparr>KeyInfo = [''A'', ''B'', ''C'']\<rparr>" "''A''" "''B''" "''C''"]
    pk sample_keys k ne
  have a: "getNodeInitOpts sampleEnv ''peer.key'' ''wallet.json''
       = Inr [PeerKeyOpt (PrivKey ''peer key bytes''), DefaultKeyOpt ''A'',
              ImportKeyOpt ''B'', ImportKeyOpt ''C'']"
    by simp
  from t2 [THEN conjunct2, THEN conjunct2, THEN conjunct2, THEN conjunct1, rule_format,
      of "[PeerKeyOpt (PrivKey ''peer key bytes'')]"] pk
  have b: "getNodeInitOpts sampleEnv ''peer.key'' []
       = Inr [PeerKeyOpt (PrivKey ''peer key bytes'')]"
    by simp
  from t3 [THEN conjunct2, THEN conjunct2, THEN conjunct2, THEN conjunct2, THEN conjunct2,
      THEN conjunct1, rule_format,
      of "[]" "''contents of wallet.json''"
         "\<lparr>KeyInfo = [''A'', ''B'', ''C'']\<rparr>" "''A''" "''B''" "''C''"]
    nk sample_keys k ne
  have c: "getNodeInitOpts sampleEnv [] ''wallet.json''
       = Inr [DefaultKeyOpt ''A'', ImportKeyOpt ''B'', ImportKeyOpt ''C'']"
    by simp
  from t4 [THEN conjunct2, THEN conjunct1, rule_format, of "''no such file or directory''"]
    sample_bad_keys ne
  have d: "getNodeInitOpts sampleEnv ''missing.key'' ''wallet.json''
       = Inl (KeyImportFailure ''no such file or directory'')"
    by simp
  from t5 [THEN conjunct2, THEN conjunct2, THEN conjunct1, rule_format,
      of "''not a key''" "''malformed private key''"]
    sample_bad_keys ne
  have e: "getNodeInitOpts sampleEnv ''bad.key'' ''wallet.json''
       = Inl (KeyImportFailure ''malformed private key'')"
    by simp
  from a b c d e sample_keys sample_bad_keys show ?thesis by blast
qed

text \<open>
  C9. An empty key list is meant to be tolerated. The code tests
  \<^verbatim>\<open>len(wir.KeyInfo) > 0\<close> before it reads \<^verbatim>\<open>wir.KeyInfo[0]\<close>, but the slice expression
  \<^verbatim>\<open>wir.KeyInfo[1:]\<close> of the loop is outside that test: on a wallet file that decodes to
  a key list with no entry, \<open>getNodeInitOpts\<close> panics.
\<close>

theorem getNodeInitOpts_empty_wallet_panics:
  "os_Open sampleEnv ''empty-wallet.json'' = Inr ''contents of empty-wallet.json''
   \<and> json_Decode sampleEnv ''contents of empty-wallet.json'' = Inr (Some \<lparr>KeyInfo = []\<rparr>)
   \<and> getNodeInitOpts sampleEnv [] ''empty-wallet.json''
       = Inl (Panic ''slice bounds out of range [1:0]'')"
  by (simp add: getNodeInitOpts_def sample_os_Open_def sampleFiles_def sample_json_Decode_def)

subsection \<open>The command\<close>

lemma loadGenesis_frame:
  assumes "loadGenesis env rep s = Some (x, rep1)"
  shows "cfg rep1 = cfg rep \<and> stored rep1 = stored rep \<and> replaced rep1 = replaced rep"
  using assms
  by (auto simp: loadGenesis_def split: if_splits sum.splits option.splits prod.splits)

lemma setDrandConfig_frame:
  assumes "setDrandConfig env rep options = (err, rep3)"
  shows "stored rep3 = stored rep \<and> replaced rep3 = replaced rep"
  using assms
  by (auto simp: setDrandConfig_def Let_def split: option.splits prod.splits)

lemma setDrandConfig_error_cfg:
  "cfg r = cfg r' \<Longrightarrow>
     fst (setDrandConfig env r options) = fst (setDrandConfig env r' options)"
  by (auto simp: setDrandConfig_def Let_def split: option.splits prod.splits)

lemma sample_setConfig_mainnet:
  "setConfigFromOptions sampleEnv sampleConfig minerOptionsMainnet
     = (Some (InvalidOption ''unknown network name mainnet''), minerConfig)"
  by (simp add: setConfigFromOptions_def minerOptionsMainnet_def minerOptions_def optionNames
      sample_NewFromString_def Let_def minerConfig_def setMinerAddress_def)

lemma sample_setConfig_miner:
  "setConfigFromOptions sampleEnv sampleConfig minerOptions = (None, minerConfig)"
  by (simp add: setConfigFromOptions_def minerOptions_def optionNames
      sample_NewFromString_def Let_def minerConfig_def setMinerAddress_def)

lemma sample_Run_pre:
  "GetRepoPath sampleEnv [] = Inr ''~/.filecoin''"
  "Emit sampleEnv d = None"
  "InitFSRepo sampleEnv d c = None"
  "OpenFSRepo sampleEnv d = Inr sampleRepo"
  "NewDefaultConfig sampleEnv = sampleConfig"
  "writeConfigFile sampleEnv old new = (None, new)"
  "node_Init sampleEnv rep gif opts = (None, rep)"
  by (simp_all add: sampleEnv_def)

lemma sample_options_absent:
  "minerOptionsMainnet OptionRepoDir = None" "minerOptionsMainnet GenesisFile = None"
  "minerOptionsMainnet PeerKeyFile = None" "minerOptionsMainnet WalletKeyFile = None"
  "minerOptionsMainnet OptionDrandConfigAddr = None"
  "minerOptions OptionRepoDir = None" "minerOptions GenesisFile = None"
  "minerOptions PeerKeyFile = None" "minerOptions WalletKeyFile = None"
  "minerOptions OptionDrandConfigAddr = None"
  by (simp_all add: minerOptionsMainnet_def minerOptions_def optionNames)

lemma sample_Run_mainnet:
  "Run sampleEnv minerOptionsMainnet
     = Some (Some (InvalidOption ''unknown network name mainnet''),
             Some (sampleRepo\<lparr>cfg := minerConfig\<rparr>))"
  by (simp add: Run_def sample_Run_pre sample_options_absent loadGenesis_def
      getNodeInitOpts_def sample_setConfig_mainnet sampleRepo_def)

lemma sample_Run_miner:
  "Run sampleEnv minerOptions
     = Some (None, Some \<lparr>cfg = minerConfig, stored = minerConfig, datastore = Map.empty,
                          replaced = [minerConfig]\<rparr>)"
  by (simp add: Run_def sample_Run_pre sample_options_absent loadGenesis_def
      getNodeInitOpts_def sample_setConfig_miner sampleRepo_def setDrandConfig_def
      ReplaceConfig_def)

text \<open>
  C4. In \<^verbatim>\<open>initCmd.Run\<close>, whenever the command has called \<^verbatim>\<open>ReplaceConfig\<close> or the
  stored configuration has changed since the repository was opened, \<open>setConfigFromOptions\<close>
  and \<open>setDrandConfig\<close> have both returned no error; and for every option map on which
  \<open>setConfigFromOptions\<close> returns an error, \<^verbatim>\<open>ReplaceConfig\<close> is never called and the
  stored configuration is the one the opened repository had.
\<close>

theorem Run_replaces_config_after_validation:
  assumes path: "GetRepoPath env (repoDirOf options) = Inr repoDir"
    and opened: "OpenFSRepo env repoDir = Inr rep"
    and run: "Run env options = Some (res, Some rep')"
  shows "(replaced rep' \<noteq> replaced rep \<or> stored rep' \<noteq> stored rep \<longrightarrow>
            fst (setConfigFromOptions env (cfg rep) options) = None
            \<and> fst (setDrandConfig env
                     (rep\<lparr>cfg := snd (setConfigFromOptions env (cfg rep) options)\<rparr>) options)
                = None)
       \<and> (\<forall>e. fst (setConfigFromOptions env (cfg rep) options) = Some e \<longrightarrow>
            replaced rep' = replaced rep \<and> stored rep' = stored rep)"
proof -
  let ?src = "case assertString (options GenesisFile) of Some s \<Rightarrow> s | None \<Rightarrow> []"
  let ?pk = "case assertString (options PeerKeyFile) of Some s \<Rightarrow> s | None \<Rightarrow> []"
  let ?wk = "case assertString (options WalletKeyFile) of Some s \<Rightarrow> s | None \<Rightarrow> []"
  from run path opened have emit: "Emit env repoDir = None"
    and init: "InitFSRepo env repoDir (NewDefaultConfig env) = None"
    by (auto simp: Run_def repoDirOf_def Let_def split: option.splits)
  note pre = path[unfolded repoDirOf_def] opened emit init
  from run pre obtain g rep1 where lg: "loadGenesis env rep ?src = Some (g, rep1)"
    by (cases "loadGenesis env rep ?src") (auto simp: Run_def Let_def)
  from loadGenesis_frame[OF lg] have f1: "cfg rep1 = cfg rep" "stored rep1 = stored rep"
    "replaced rep1 = replaced rep" by simp_all
  show ?thesis
  proof (cases g)
    case (Inl e)
    with run pre lg f1 show ?thesis
      by (auto simp: Run_def Let_def)
  next
    case (Inr gif)
    note G = Inr
    show ?thesis
    proof (cases "getNodeInitOpts env ?pk ?wk")
      case (Inl e)
      with run pre lg G f1 show ?thesis
        by (auto simp: Run_def Let_def)
    next
      case (Inr initopts)
      note I = Inr
      obtain err2 c where sc: "setConfigFromOptions env (cfg rep) options = (err2, c)"
        by (cases "setConfigFromOptions env (cfg rep) options")
      show ?thesis
      proof (cases err2)
        case (Some e)
        with run pre lg G I sc f1 show ?thesis
          by (auto simp: Run_def Let_def)
      next
        case None
        note E2 = None
        obtain err3 rep3 where
          sd: "setDrandConfig env (rep1\<lparr>cfg := c\<rparr>) options = (err3, rep3)"
          by (cases "setDrandConfig env (rep1\<lparr>cfg := c\<rparr>) options")
        from setDrandConfig_frame[OF sd] f1 have f3: "stored rep3 = stored rep"
          "replaced rep3 = replaced rep" by simp_all
        have d3: "fst (setDrandConfig env (rep\<lparr>cfg := c\<rparr>) options) = err3"
          using setDrandConfig_error_cfg[of "rep\<lparr>cfg := c\<rparr>" "rep1\<lparr>cfg := c\<rparr>" env options] sd
          by simp
        show ?thesis
        proof (cases err3)
          case (Some e)
          with run pre lg G I sc f1 E2 sd f3 show ?thesis
            by (auto simp: Run_def Let_def)
        next
          case None
          with sc E2 d3 show ?thesis by simp
        qed
      qed
    qed
  qed
qed

theorem Run_replaces_config_after_validation_witness:
  "GetRepoPath sampleEnv (repoDirOf minerOptionsMainnet) = Inr ''~/.filecoin''
   \<and> OpenFSRepo sampleEnv ''~/.filecoin'' = Inr sampleRepo
   \<and> Run sampleEnv minerOptionsMainnet
       = Some (Some (InvalidOption ''unknown network name mainnet''),
               Some (sampleRepo\<lparr>cfg := minerConfig\<rparr>))
   \<and> fst (setConfigFromOptions sampleEnv (cfg sampleRepo) minerOptionsMainnet)
       = Some (InvalidOption ''unknown network name mainnet'')
   \<and> replaced (sampleRepo\<lparr>cfg := minerConfig\<rparr>) = replaced sampleRepo
   \<and> stored (sampleRepo\<lparr>cfg := minerConfig\<rparr>) = stored sampleRepo
   \<and> GetRepoPath sampleEnv (repoDirOf minerOptions) = Inr ''~/.filecoin''
   \<and> Run sampleEnv minerOptions
       = Some (None, Some \<lparr>cfg = minerConfig, stored = minerConfig, datastore = Map.empty,
                            replaced = [minerConfig]\<rparr>)
   \<and> replaced \<lparr>cfg = minerConfig, stored = minerConfig, datastore = Map.empty,
                 replaced = [minerConfig]\<rparr> \<noteq> replaced sampleRepo
   \<and> fst (setConfigFromOptions sampleEnv (cfg sampleRepo) minerOptions) = None
   \<and> fst (setDrandConfig sampleEnv
            (sampleRepo\<lparr>cfg := snd (setConfigFromOptions sampleEnv (cfg sampleRepo)
                                      minerOptions)\<rparr>) minerOptions) = None"
proof -
  have p1: "GetRepoPath sampleEnv (repoDirOf minerOptionsMainnet) = Inr ''~/.filecoin''"
    and p2: "GetRepoPath sampleEnv (repoDirOf minerOptions) = Inr ''~/.filecoin''"
    by (simp_all add: repoDirOf_def sample_options_absent sample_Run_pre)
  have o: "OpenFSRepo sampleEnv ''~/.filecoin'' = Inr sampleRepo"
    by (simp add: sample_Run_pre)
  have c: "cfg sampleRepo = sampleConfig" by (simp add: sampleRepo_def)
  have e: "fst (setConfigFromOptions sampleEnv (cfg sampleRepo) minerOptionsMainnet)
       = Some (InvalidOption ''unknown network name mainnet'')"
    by (simp add: c sample_setConfig_mainnet)
  have n: "replaced \<lparr>cfg = minerConfig, stored = minerConfig, datastore = Map.empty,
                 replaced = [minerConfig]\<rparr> \<noteq> replaced sampleRepo"
    by (simp add: sampleRepo_def)
  note t1 = Run_replaces_config_after_validation [OF p1 o sample_Run_mainnet]
  note t2 = Run_replaces_config_after_validation [OF p2 o sample_Run_miner]
  from t1 [THEN conjunct2, rule_format, OF e]
  have a: "replaced (sampleRepo\<lparr>cfg := minerConfig\<rparr>) = replaced sampleRepo
      \<and> stored (sampleRepo\<lparr>cfg := minerConfig\<rparr>) = stored sampleRepo" .
  from t2 [THEN conjunct1] n
  have b: "fst (setConfigFromOptions sampleEnv (cfg sampleRepo) minerOptions) = None
      \<and> fst (setDrandConfig sampleEnv
            (sampleRepo\<lparr>cfg := snd (setConfigFromOptions sampleEnv (cfg sampleRepo)
                                      minerOptions)\<rparr>) minerOptions) = None"
    by blast
  from a b p1 p2 o e n sample_Run_mainnet sample_Run_miner show ?thesis by blast
qed

end
